theory Spec2Isabelle
  imports Complex_Main "HOL-Library.AList"
begin

section \<open>Python values used by the giveaway bot\<close>

text \<open>
  The bot is a Python program.  Its strings are modelled as \<open>string\<close>, every
  \<open>char\<close> standing for the code point of the same number (the Latin-1 range, which
  holds everything that is significant to \<open>str.strip\<close>, \<open>str.split\<close> and
  \<open>int\<close>: separators, signs, ASCII digits and white space).  Python exceptions
  are values of \<open>py_error\<close>; a computation that may raise returns
  \<open>py_error + 'a\<close>.
\<close>

datatype py_error =
    ValueError | OverflowError | IndexError | KeyError | HTTPException | OSError

text \<open>\<open>str.isspace\<close> on one code point below 256, as \<open>str.strip()\<close> uses it.\<close>

definition py_isspace :: "char \<Rightarrow> bool" where
  "py_isspace c =
     (let n = (of_char c :: nat)
      in (9 \<le> n \<and> n \<le> 13) \<or> (28 \<le> n \<and> n \<le> 32) \<or> n = 133 \<or> n = 160)"

text \<open>
  The white space \<open>int(s)\<close> skips around the number: as above without the
  separators \<open>0x1C\<close> to \<open>0x1F\<close>.
\<close>

definition py_int_isspace :: "char \<Rightarrow> bool" where
  "py_int_isspace c =
     (let n = (of_char c :: nat)
      in (9 \<le> n \<and> n \<le> 13) \<or> n = 32 \<or> n = 133 \<or> n = 160)"

text \<open>\<open>s.strip()\<close>\<close>

definition strip :: "string \<Rightarrow> string" where
  "strip s = rev (dropWhile py_isspace (rev (dropWhile py_isspace s)))"

text \<open>
  \<open>s.split(sep)\<close> for a separator of one character: the pieces between the
  occurrences of \<open>sep\<close>, empty pieces included; never the empty list.
\<close>

fun split_on :: "char \<Rightarrow> string \<Rightarrow> string list" where
  "split_on sep [] = [[]]"
| "split_on sep (c # cs) =
     (case split_on sep cs of
        [] \<Rightarrow> [[c]]
      | p # ps \<Rightarrow> if c = sep then [] # p # ps else (c # p) # ps)"

definition is_digit :: "char \<Rightarrow> bool" where
  "is_digit c = (48 \<le> (of_char c :: nat) \<and> (of_char c :: nat) \<le> 57)"

definition digit_value :: "char \<Rightarrow> nat" where
  "digit_value c = of_char c - 48"

definition digits_value :: "string \<Rightarrow> nat" where
  "digits_value ds = foldl (\<lambda>acc d. 10 * acc + digit_value d) 0 ds"

text \<open>CPython's default limit on the number of digits \<open>int(s)\<close> converts.\<close>

definition int_max_str_digits :: nat where
  "int_max_str_digits = 4300"

text \<open>
  \<open>int(s)\<close> in base 10: white space around the number is skipped; an optional sign;
  then groups of decimal digits joined by single underscores.  Anything else, and a
  number of more than \<open>int_max_str_digits\<close> digits, raises \<open>ValueError\<close>.
\<close>

definition py_int :: "string \<Rightarrow> py_error + int" where
  "py_int s =
     (let t = rev (dropWhile py_int_isspace (rev (dropWhile py_int_isspace s)));
          negative = (case t of [] \<Rightarrow> False | c # _ \<Rightarrow> c = CHR ''-'');
          body = (case t of [] \<Rightarrow> []
                  | c # r \<Rightarrow> if c = CHR ''-'' \<or> c = CHR ''+'' then r else t);
          groups = split_on (CHR ''_'') body
      in if list_all (\<lambda>g. g \<noteq> [] \<and> list_all is_digit g) groups
            \<and> length (concat groups) \<le> int_max_str_digits
         then Inr (if negative then - int (digits_value (concat groups))
                   else int (digits_value (concat groups)))
         else Inl ValueError)"

text \<open>
  \<open>str(i)\<close> for an integer.  The integers it is applied to have at most as many
  digits as \<open>int\<close> accepts, so the conversion does not raise.
\<close>

definition digit_char :: "nat \<Rightarrow> char" where
  "digit_char d = ''0123456789'' ! d"

fun nat_digits :: "nat \<Rightarrow> string" where
  "nat_digits n =
     (if n < 10 then [digit_char n]
      else nat_digits (n div 10) @ [digit_char (n mod 10)])"

declare nat_digits.simps [simp del]

definition py_str :: "int \<Rightarrow> string" where
  "py_str i = (if i < 0 then CHR ''-'' # nat_digits (nat (- i)) else nat_digits (nat i))"

section \<open>The prize resolver: \<open>parse_prize_ids\<close> (utils/database.py)\<close>

type_synonym catalog = "string \<rightharpoonup> string"
type_synonym resolved = "(string \<times> string) list"

text \<open>
  The four lines every branch of the loop ends in:
  \<^verbatim>\<open>if prize_id in prizes: result[prize_id] = prizes[prize_id]
else: missing.append(prize_id)\<close>
  The dictionary \<open>result\<close> keeps its keys in the order of their first insertion.
\<close>

definition lookup_into ::
  "catalog \<Rightarrow> resolved \<times> string list \<Rightarrow> string \<Rightarrow> resolved \<times> string list" where
  "lookup_into prizes acc prize_id =
     (case prizes prize_id of
        Some name \<Rightarrow> (AList.update prize_id name (fst acc), snd acc)
      | None \<Rightarrow> (fst acc, snd acc @ [prize_id]))"

text \<open>
  The head of the \<open>try\<close> block:
  \<^verbatim>\<open>start, end = map(str.strip, part.split('-'))
start_int, end_int = int(start), int(end)\<close>
  Unpacking anything but two pieces raises \<open>ValueError\<close>, as a failing \<open>int\<close> does.
\<close>

definition range_bounds :: "string \<Rightarrow> py_error + (int \<times> int)" where
  "range_bounds part =
     (case map strip (split_on (CHR ''-'') part) of
        [start, end] \<Rightarrow>
          (case py_int start of
             Inl e \<Rightarrow> Inl e
           | Inr start_int \<Rightarrow>
               (case py_int end of
                  Inl e \<Rightarrow> Inl e
                | Inr end_int \<Rightarrow> Inr (start_int, end_int)))
      | _ \<Rightarrow> Inl ValueError)"

text \<open>The body of \<open>for part in parts\<close>.\<close>

definition process_part ::
  "catalog \<Rightarrow> resolved \<times> string list \<Rightarrow> string \<Rightarrow> resolved \<times> string list" where
  "process_part prizes acc part =
     (if CHR ''-'' \<in> set part then
        (case range_bounds part of
           Inr (start_int, end_int) \<Rightarrow>
             foldl (lookup_into prizes) acc (map py_str [start_int..end_int])
         | Inl _ \<Rightarrow> lookup_into prizes acc part)
      else lookup_into prizes acc part)"

definition parse_prize_ids :: "string \<Rightarrow> catalog \<Rightarrow> resolved \<times> string list" where
  "parse_prize_ids prize_ids_str prizes =
     foldl (process_part prizes) ([], [])
       (map strip (split_on (CHR '','') prize_ids_str))"

text \<open>
  The ids a token stands for, in the words of the specification: every integer of
  \<open>[A, B]\<close> in ascending order, written as \<open>str\<close> writes it, for a token that
  is a well-formed range \<open>A-B\<close>; the token itself otherwise.
\<close>

definition token_ids :: "string \<Rightarrow> string list" where
  "token_ids part =
     (case range_bounds part of
        Inr (a, b) \<Rightarrow> map py_str [a..b]
      | Inl _ \<Rightarrow> [part])"

text \<open>The tokens of a specification string: \<open>parts\<close> in the source.\<close>

definition tokens :: "string \<Rightarrow> string list" where
  "tokens prize_ids_str = map strip (split_on (CHR '','') prize_ids_str)"

section \<open>Dates and times (the \<open>datetime\<close> module)\<close>

text \<open>
  A naive \<open>datetime\<close> is the number of microseconds since 0001-01-01 00:00:00 on
  its own calendar; comparing two of them compares these numbers.  A
  \<open>timedelta\<close> is a number of microseconds.  A POSIX timestamp is a Python
  \<open>float\<close>; it is modelled as a real number, so rounding is outside the model.
\<close>

type_synonym datetime = int
type_synonym timestamp = real

definition is_leap :: "int \<Rightarrow> bool" where
  "is_leap y = (y mod 4 = 0 \<and> (y mod 100 \<noteq> 0 \<or> y mod 400 = 0))"

definition days_in_month :: "int \<Rightarrow> int \<Rightarrow> int" where
  "days_in_month y m =
     (if m = 2 then (if is_leap y then 29 else 28)
      else if m = 4 \<or> m = 6 \<or> m = 9 \<or> m = 11 then 30 else 31)"

definition days_before_year :: "int \<Rightarrow> int" where
  "days_before_year y = (y - 1) * 365 + (y - 1) div 4 - (y - 1) div 100 + (y - 1) div 400"

definition days_before_month :: "int \<Rightarrow> int \<Rightarrow> int" where
  "days_before_month y m = sum_list (map (days_in_month y) [1..m - 1])"

definition ymd2ord :: "int \<Rightarrow> int \<Rightarrow> int \<Rightarrow> int" where
  "ymd2ord y m d = days_before_year y + days_before_month y m + d"

definition c_int :: "int \<Rightarrow> bool" where
  "c_int i = (- 2147483648 \<le> i \<and> i \<le> 2147483647)"

text \<open>
  \<open>datetime(year, month, day, hour, minute)\<close>: an argument that does not fit a C
  \<open>int\<close> raises \<open>OverflowError\<close>; a field out of its range raises
  \<open>ValueError\<close>.
\<close>

definition py_datetime :: "int \<Rightarrow> int \<Rightarrow> int \<Rightarrow> int \<Rightarrow> int \<Rightarrow> py_error + datetime" where
  "py_datetime year month day hour minute =
     (if \<not> (c_int year \<and> c_int month \<and> c_int day \<and> c_int hour \<and> c_int minute)
      then Inl OverflowError
      else if 1 \<le> year \<and> year \<le> 9999 \<and> 1 \<le> month \<and> month \<le> 12
              \<and> 1 \<le> day \<and> day \<le> days_in_month year month
              \<and> 0 \<le> hour \<and> hour \<le> 23 \<and> 0 \<le> minute \<and> minute \<le> 59
      then Inr ((((ymd2ord year month day - 1) * 24 + hour) * 60 + minute) * 60000000)
      else Inl ValueError)"

text \<open>The first instant after \<open>datetime.max\<close> (9999-12-31 23:59:59.999999).\<close>

definition datetime_end :: int where
  "datetime_end = 3652059 * 86400000000"

text \<open>
  \<open>timedelta(hours=hours, minutes=minutes)\<close>: \<open>OverflowError\<close> when the number
  of days leaves \<open>[-999999999, 999999999]\<close>.
\<close>

definition py_timedelta :: "int \<Rightarrow> int \<Rightarrow> py_error + int" where
  "py_timedelta hours minutes =
     (let seconds = hours * 3600 + minutes * 60;
          days = seconds div 86400
      in if - 999999999 \<le> days \<and> days \<le> 999999999 then Inr (seconds * 1000000)
         else Inl OverflowError)"

text \<open>\<open>dt + delta\<close>: \<open>OverflowError\<close> outside the years 1 to 9999.\<close>

definition datetime_add :: "datetime \<Rightarrow> int \<Rightarrow> py_error + datetime" where
  "datetime_add dt delta =
     (if 0 \<le> dt + delta \<and> dt + delta < datetime_end then Inr (dt + delta)
      else Inl OverflowError)"

text \<open>\<open>delta.total_seconds()\<close>\<close>

definition total_seconds :: "int \<Rightarrow> real" where
  "total_seconds delta = real_of_int delta / 1000000"

text \<open>
  \<open>a, b, c = map(int, s.split(sep))\<close> and its form with two targets: a wrong number
  of pieces and a piece that is no integer both raise \<open>ValueError\<close>.
\<close>

definition unpack_ints3 :: "char \<Rightarrow> string \<Rightarrow> py_error + (int \<times> int \<times> int)" where
  "unpack_ints3 sep s =
     (case split_on sep s of
        [x, y, z] \<Rightarrow>
          (case py_int x of Inl e \<Rightarrow> Inl e | Inr a \<Rightarrow>
          (case py_int y of Inl e \<Rightarrow> Inl e | Inr b \<Rightarrow>
          (case py_int z of Inl e \<Rightarrow> Inl e | Inr c \<Rightarrow> Inr (a, b, c))))
      | _ \<Rightarrow> Inl ValueError)"

definition unpack_ints2 :: "char \<Rightarrow> string \<Rightarrow> py_error + (int \<times> int)" where
  "unpack_ints2 sep s =
     (case split_on sep s of
        [x, y] \<Rightarrow>
          (case py_int x of Inl e \<Rightarrow> Inl e | Inr a \<Rightarrow>
          (case py_int y of Inl e \<Rightarrow> Inl e | Inr b \<Rightarrow> Inr (a, b)))
      | _ \<Rightarrow> Inl ValueError)"

text \<open>
  \<open>random.choice(seq)\<close>: the element at an index below \<open>len(seq)\<close>, here the
  index that the raw draw \<open>r\<close> stands for; \<open>IndexError\<close> on an empty sequence.
\<close>

definition random_choice :: "nat \<Rightarrow> 'a list \<Rightarrow> py_error + 'a" where
  "random_choice r seq = (if seq = [] then Inl IndexError else Inr (seq ! (r mod length seq)))"

section \<open>The giveaway cog (cogs/giveaway.py)\<close>

text \<open>
  Every handler of the cog is a function from the answers of the outside world during
  the call and the cog before the call to the cog after it and the list of the call's
  effects, in their order.  The handlers are coroutines on one event loop; a call is
  modelled from its start to its end, so two calls are not interleaved at their
  \<open>await\<close>s.  An exception that leaves a handler is its last effect (\<open>Raised\<close>).
\<close>

subsection \<open>State\<close>

text \<open>
  A giveaway is a JSON object.  The code reads most of its keys with \<open>dict.get\<close>, so
  every key may be absent: \<open>None\<close> is the absent key.
\<close>

record giveaway =
  title :: "string option"
  description :: "string option"
  creator_id :: "string option"
  channel_id :: "string option"
  message_id :: "string option"
  guild_id :: "string option"
  end_time :: "timestamp option"
  participants :: "string list option"
  ended :: "bool option"
  assigned_prizes :: "(string \<times> string) list option"
  prize_list_id :: "string option"
  celebration_gif :: "string option"

text \<open>
  An \<open>asyncio\<close> task made by the cog: \<open>schedule_giveaway_end(id, seconds)\<close> when
  \<open>task_delay\<close> is \<open>Some seconds\<close>, \<open>end_giveaway(id)\<close> itself when it is
  \<open>None\<close>.
\<close>

datatype task_status = Pending | Cancelled | Finished

record task =
  task_giveaway :: string
  task_delay :: "real option"
  status :: task_status

text \<open>
  The cog with the bot's timer table.  Dictionaries are association lists in insertion
  order; \<open>tasks\<close> holds every task created so far, and a task's handle is its index.
  \<open>active_giveaways\<close> is \<open>bot.active_giveaways\<close>: giveaway id to task handle.
\<close>

record cog =
  giveaways :: "(string \<times> giveaway) list"
  prizes :: "(string \<times> string) list"
  gifs :: "(string \<times> string) list"
  debug_mode :: bool
  tasks :: "task list"
  active_giveaways :: "(string \<times> nat) list"

subsection \<open>The outside world\<close>

text \<open>
  What \<open>channel.fetch_message\<close> does: a message (with \<open>None\<close> when it has no
  embed, else whether the first embed's description holds the end-time marker),
  \<open>discord.NotFound\<close>, or another exception.
\<close>

datatype fetch_result = Message "bool option" | NotFound | FetchFailed

text \<open>
  The answers of the platform, the file system, the clock and the random generator
  during one call.  \<open>is_admin\<close> is the result of the cog's administrator check,
  which only talks to the platform; \<open>sent_message_id\<close> is the id of the message
  that \<open>channel.send\<close> returns to \<open>create_giveaway\<close>.  \<open>send_ok\<close> and
  \<open>edit_ok\<close> tell whether \<open>channel.send\<close> and \<open>message.edit\<close> return or
  raise.  \<open>reply_ok\<close> tells the same of a reply to the interaction that is followed
  by further work of its handler: the one of \<open>create_giveaway\<close> (line 373) and the
  one of \<open>end_giveaway_command\<close> (line 586).  A reply that is the last step of its
  handler is taken to be delivered.  \<open>data_dir_ok\<close> tells whether
  \<open>ensure_data_directory\<close> returns, \<open>save_ok\<close> whether the file is then written.
\<close>

record env =
  is_admin :: bool
  interaction_user_id :: int
  interaction_guild_id :: int
  interaction_channel_id :: int
  sent_message_id :: int
  now :: datetime
  now_repr :: string
  to_timestamp :: "datetime \<Rightarrow> py_error + timestamp"
  data_dir_ok :: bool
  save_ok :: bool
  reply_ok :: bool
  get_channel :: "int \<Rightarrow> bool"
  fetch_message :: "int \<Rightarrow> int \<Rightarrow> fetch_result"
  send_ok :: bool
  edit_ok :: bool
  gif_file_exists :: "string \<Rightarrow> bool"
  rand_winner :: nat
  rand_prize :: nat

subsection \<open>Observable effects\<close>

text \<open>The replies to an interaction, by the message the source sends.\<close>

datatype response =
    Created
  | GuildNotAllowed
  | NotActive
  | AlreadyEnded
  | AlreadyJoined
  | Joined
  | GiveawayNotFound
  | EndingEarly
  | CancelDone
  | CannotChangeEnded
  | MustBeFuture
  | TimeChanged
  | BadFormat
  | SetTimeError py_error

text \<open>What is posted to a channel or written into the giveaway's message.\<close>

datatype notice =
    NewGiveaway string
  | Winner string string bool
  | NoParticipants
  | CancelledByAdmin
  | NewEnd timestamp

datatype log_entry =
    EndNotFound
  | MissingIds
  | ChannelNotFound
  | MessageNotFound
  | ErrorEnding py_error
  | ErrorUpdating py_error
  | ErrorSettingTime py_error

datatype event =
    Saved "(string \<times> giveaway) list"
  | SaveFailed
  | Response response
  | ChannelSend int notice
  | MessageEdit int int notice
  | Log log_entry
  | Raised py_error

subsection \<open>Persistence (utils/database.py)\<close>

text \<open>
  \<open>ensure_data_directory\<close> (lines 16 to 30) makes the data directories that are
  missing; \<open>os.makedirs\<close> raises \<open>OSError\<close> when it cannot.
\<close>

definition ensure_data_directory :: "env \<Rightarrow> py_error option" where
  "ensure_data_directory e = (if data_dir_ok e then None else Some OSError)"

text \<open>
  \<open>save_giveaways\<close> (lines 45 to 52) writes the whole collection.  The call of
  \<open>ensure_data_directory\<close> stands before the \<open>try\<close>, so its exception leaves
  \<open>save_giveaways\<close>; an exception of the write is caught and logged inside the
  function, which then returns \<open>None\<close> as it does after a write that succeeded.
\<close>

definition save_giveaways :: "env \<Rightarrow> (string \<times> giveaway) list \<Rightarrow> py_error + event list" where
  "save_giveaways e gs =
     (case ensure_data_directory e of
        Some err \<Rightarrow> Inl err
      | None \<Rightarrow> Inr (if save_ok e then [Saved gs] else [SaveFailed]))"

subsection \<open>Reading a giveaway\<close>

text \<open>\<open>giveaway.get("ended", False)\<close> as a condition.\<close>

definition is_ended :: "giveaway \<Rightarrow> bool" where
  "is_ended g = (ended g = Some True)"

text \<open>\<open>giveaway.get("participants", [])\<close>\<close>

definition get_participants :: "giveaway \<Rightarrow> string list" where
  "get_participants g = (case participants g of None \<Rightarrow> [] | Some ps \<Rightarrow> ps)"

text \<open>\<open>giveaway.get("end_time", 0)\<close>\<close>

definition get_end_time :: "giveaway \<Rightarrow> timestamp" where
  "get_end_time g = (case end_time g of None \<Rightarrow> 0 | Some t \<Rightarrow> t)"

text \<open>\<open>not x\<close> for an optional string: absent or empty.\<close>

definition falsy :: "string option \<Rightarrow> bool" where
  "falsy x = (case x of None \<Rightarrow> True | Some v \<Rightarrow> v = [])"

subsection \<open>Tasks\<close>

text \<open>\<open>asyncio.create_task\<close>: the new task's handle is the next index.\<close>

definition create_task :: "string \<Rightarrow> real option \<Rightarrow> cog \<Rightarrow> cog" where
  "create_task giveaway_id delay s =
     s\<lparr>tasks := tasks s @ [\<lparr>task_giveaway = giveaway_id, task_delay = delay, status = Pending\<rparr>]\<rparr>"

text \<open>\<open>task.cancel()\<close>: a task that has finished stays finished.\<close>

definition cancel_task :: "nat \<Rightarrow> task list \<Rightarrow> task list" where
  "cancel_task h ts =
     (if h < length ts \<and> status (ts ! h) = Pending
      then ts[h := (ts ! h)\<lparr>status := Cancelled\<rparr>] else ts)"

text \<open>
  \<open>if giveaway_id in self.bot.active_giveaways:
      self.bot.active_giveaways[giveaway_id].cancel()\<close>
\<close>

definition cancel_scheduled :: "string \<Rightarrow> cog \<Rightarrow> cog" where
  "cancel_scheduled giveaway_id s =
     (case map_of (active_giveaways s) giveaway_id of
        None \<Rightarrow> s
      | Some h \<Rightarrow> s\<lparr>tasks := cancel_task h (tasks s)\<rparr>)"

subsection \<open>Ending a giveaway\<close>

text \<open>\<open>giveaway.get("assigned_prizes")\<close>, with the empty dictionary for an absent key.\<close>

definition get_assigned_prizes :: "giveaway \<Rightarrow> (string \<times> string) list" where
  "get_assigned_prizes g = (case assigned_prizes g of None \<Rightarrow> [] | Some ap \<Rightarrow> ap)"

text \<open>
  The prize of a winner (\<open>end_giveaway\<close>, lines 252 to 260): from the giveaway's own
  prizes when it has any, else from the global pool when that has any, else the default
  name.  \<open>r\<close> is the raw random draw.
\<close>

definition select_prize ::
  "nat \<Rightarrow> giveaway \<Rightarrow> (string \<times> string) list \<Rightarrow> py_error + string" where
  "select_prize r g pool =
     (if get_assigned_prizes g \<noteq> [] then random_choice r (map snd (get_assigned_prizes g))
      else if pool \<noteq> [] then random_choice r (map snd pool)
      else Inr ''Mystery Prize'')"

text \<open>
  Whether the announcement carries the celebration file: the giveaway names a GIF, the
  cog knows it, and its file exists.
\<close>

definition with_gif :: "env \<Rightarrow> giveaway \<Rightarrow> (string \<times> string) list \<Rightarrow> bool" where
  "with_gif e g known_gifs =
     (case celebration_gif g of
        None \<Rightarrow> False
      | Some gif_id \<Rightarrow>
          gif_id \<noteq> [] \<and> map_of known_gifs gif_id \<noteq> None \<and> gif_file_exists e gif_id)"

text \<open>
  \<open>channel.send\<close> of the result, then \<open>message.edit\<close> of the giveaway's message when
  it was found and has an embed.  The flag tells whether both returned; an exception of
  either lands in the handler of \<open>end_giveaway\<close>, which logs it.
\<close>

definition send_and_edit ::
  "env \<Rightarrow> int \<Rightarrow> int \<Rightarrow> bool option option \<Rightarrow> notice \<Rightarrow> notice \<Rightarrow> event list \<times> bool" where
  "send_and_edit e c m message sent edited =
     (if \<not> send_ok e then ([Log (ErrorEnding HTTPException)], False)
      else (case message of
              Some (Some _) \<Rightarrow>
                if edit_ok e then ([ChannelSend c sent, MessageEdit c m edited], True)
                else ([ChannelSend c sent, Log (ErrorEnding HTTPException)], False)
            | _ \<Rightarrow> ([ChannelSend c sent], True)))"

text \<open>Lines 248 to 323: the winner and the prize, or the notice that nobody took part.\<close>

definition announce ::
  "env \<Rightarrow> int \<Rightarrow> int \<Rightarrow> bool option option \<Rightarrow> giveaway \<Rightarrow> (string \<times> string) list
     \<Rightarrow> (string \<times> string) list \<Rightarrow> event list \<times> bool" where
  "announce e c m message g pool known_gifs =
     (if get_participants g \<noteq> [] then
        (case random_choice (rand_winner e) (get_participants g) of
           Inl err \<Rightarrow> ([Log (ErrorEnding err)], False)
         | Inr winner_id \<Rightarrow>
             (case select_prize (rand_prize e) g pool of
                Inl err \<Rightarrow> ([Log (ErrorEnding err)], False)
              | Inr prize \<Rightarrow>
                  send_and_edit e c m message
                    (Winner winner_id prize (with_gif e g known_gifs))
                    (Winner winner_id prize False)))
      else send_and_edit e c m message NoParticipants NoParticipants)"

text \<open>
  Lines 229 to 323: find the channel and the message, then announce.  The flag tells
  whether control reaches the clean-up at the end of the \<open>try\<close> block: not after an
  early \<open>return\<close>, and not after an exception.
\<close>

definition deliver ::
  "env \<Rightarrow> giveaway \<Rightarrow> (string \<times> string) list \<Rightarrow> (string \<times> string) list
     \<Rightarrow> event list \<times> bool" where
  "deliver e g pool known_gifs =
     (case (channel_id g, message_id g) of
        (Some cid, Some mid) \<Rightarrow>
          if cid = [] \<or> mid = [] then ([Log MissingIds], False)
          else
            (case py_int cid of
               Inl err \<Rightarrow> ([Log (ErrorEnding err)], False)
             | Inr c \<Rightarrow>
                 if \<not> get_channel e c then ([Log ChannelNotFound], False)
                 else
                   (case py_int mid of
                      Inl err \<Rightarrow> ([Log (ErrorEnding err)], False)
                    | Inr m \<Rightarrow>
                        (case fetch_message e c m of
                           FetchFailed \<Rightarrow> ([Log (ErrorEnding HTTPException)], False)
                         | NotFound \<Rightarrow>
                             (Log MessageNotFound # fst (announce e c m None g pool known_gifs),
                              snd (announce e c m None g pool known_gifs))
                         | Message emb \<Rightarrow> announce e c m (Some emb) g pool known_gifs)))
      | _ \<Rightarrow> ([Log MissingIds], False))"

text \<open>
  \<open>end_giveaway\<close> (lines 216 to 331).  There is no test of \<open>ended\<close>: a known giveaway
  is marked ended and saved, then announced; the timer handle is deleted at the end of
  the \<open>try\<close> block.  An exception of \<open>save_giveaways\<close> is caught by the handler
  of that block like any other, after \<open>ended\<close> was set.
\<close>

definition end_giveaway :: "env \<Rightarrow> string \<Rightarrow> cog \<Rightarrow> cog \<times> event list" where
  "end_giveaway e giveaway_id s =
     (case map_of (giveaways s) giveaway_id of
        None \<Rightarrow> (s, [Log EndNotFound])
      | Some giveaway \<Rightarrow>
          (let g = giveaway\<lparr>ended := Some True\<rparr>;
               s1 = s\<lparr>giveaways := AList.update giveaway_id g (giveaways s)\<rparr>
           in case save_giveaways e (giveaways s1) of
                Inl err \<Rightarrow> (s1, [Log (ErrorEnding err)])
              | Inr saved \<Rightarrow>
                  (let delivered = deliver e g (prizes s1) (gifs s1)
                   in (if snd delivered
                       then s1\<lparr>active_giveaways :=
                                 AList.delete giveaway_id (active_giveaways s1)\<rparr>
                       else s1,
                       saved @ fst delivered))))"

text \<open>
  The event loop runs the task with handle \<open>h\<close> to its end.  A pending task, after its
  sleep if it has one, calls \<open>end_giveaway\<close>; a cancelled or finished task does
  nothing.
\<close>

definition run_task :: "env \<Rightarrow> nat \<Rightarrow> cog \<Rightarrow> cog \<times> event list" where
  "run_task e h s =
     (if h < length (tasks s) \<and> status (tasks s ! h) = Pending
      then end_giveaway e (task_giveaway (tasks s ! h))
             (s\<lparr>tasks := (tasks s)[h := (tasks s ! h)\<lparr>status := Finished\<rparr>]\<rparr>)
      else (s, []))"

subsection \<open>Start-up\<close>

text \<open>
  The body of the loop of \<open>reload_active_giveaways\<close> (lines 187 to 203); \<open>now_ts\<close> is
  \<open>datetime.now().timestamp()\<close>, read once before the loop.
\<close>

definition reload_step :: "timestamp \<Rightarrow> cog \<Rightarrow> string \<times> giveaway \<Rightarrow> cog" where
  "reload_step now_ts s item =
     (let giveaway_id = fst item; giveaway = snd item
      in if is_ended giveaway then s
         else if get_end_time giveaway > now_ts then
           (create_task giveaway_id (Some (get_end_time giveaway - now_ts)) s)
             \<lparr>active_giveaways :=
                AList.update giveaway_id (length (tasks s)) (active_giveaways s)\<rparr>
         else create_task giveaway_id None s)"

definition reload_active_giveaways :: "timestamp \<Rightarrow> cog \<Rightarrow> cog" where
  "reload_active_giveaways now_ts s = foldl (reload_step now_ts) s (giveaways s)"

subsection \<open>Commands\<close>

definition allowed_guild_ids :: "int list" where
  "allowed_guild_ids = [714813888226525226, 1093641722589876336]"

text \<open>
  \<open>is_allowed_guild\<close> (lines 73 to 86).  When it returns \<open>False\<close> it has told
  the user so (\<open>GuildNotAllowed\<close>).
\<close>

definition is_allowed_guild :: "env \<Rightarrow> cog \<Rightarrow> bool" where
  "is_allowed_guild e s = (debug_mode s \<or> interaction_guild_id e \<in> set allowed_guild_ids)"

text \<open>
  \<open>create_giveaway\<close> (lines 341 to 399).  The duration is not tested against zero.
  What can raise before the record is stored (line 380) is the arithmetic on dates, the
  reply to the interaction (line 373) and the message to the channel (line 377).  The
  save (line 391) stands between the store and the creation of the timer (line 395).
\<close>

definition create_giveaway ::
  "env \<Rightarrow> int \<Rightarrow> int \<Rightarrow> string \<Rightarrow> string \<Rightarrow> cog \<Rightarrow> cog \<times> event list" where
  "create_giveaway e hours minutes ttl descr s =
     (if \<not> is_admin e then (s, [])
      else
        (let giveaway_id = py_str (interaction_guild_id e) @ ''-'' @ now_repr e
         in case py_timedelta hours minutes of
              Inl err \<Rightarrow> (s, [Raised err])
            | Inr duration \<Rightarrow>
                (case datetime_add (now e) duration of
                   Inl err \<Rightarrow> (s, [Raised err])
                 | Inr end_dt \<Rightarrow>
                     (case to_timestamp e end_dt of
                        Inl err \<Rightarrow> (s, [Raised err])
                      | Inr end_timestamp \<Rightarrow>
                          if \<not> reply_ok e then (s, [Raised HTTPException])
                          else if \<not> send_ok e
                          then (s, [Response Created, Raised HTTPException])
                          else
                            (let g = \<lparr>title = Some ttl,
                                      description = Some descr,
                                      creator_id = Some (py_str (interaction_user_id e)),
                                      channel_id = Some (py_str (interaction_channel_id e)),
                                      message_id = Some (py_str (sent_message_id e)),
                                      guild_id = Some (py_str (interaction_guild_id e)),
                                      end_time = Some end_timestamp,
                                      participants = Some [],
                                      ended = Some False,
                                      assigned_prizes = None,
                                      prize_list_id = None,
                                      celebration_gif = None\<rparr>;
                                 s1 = s\<lparr>giveaways :=
                                          AList.update giveaway_id g (giveaways s)\<rparr>;
                                 sent = [Response Created,
                                         ChannelSend (interaction_channel_id e)
                                           (NewGiveaway giveaway_id)]
                             in case save_giveaways e (giveaways s1) of
                                  Inl err \<Rightarrow> (s1, sent @ [Raised err])
                                | Inr saved \<Rightarrow>
                                    ((create_task giveaway_id
                                        (Some (total_seconds duration)) s1)
                                       \<lparr>active_giveaways :=
                                          AList.update giveaway_id (length (tasks s1))
                                            (active_giveaways s1)\<rparr>,
                                     sent @ saved))))))"

text \<open>
  \<open>add_participant\<close> (lines 401 to 447).  The debug line reads
  \<open>giveaway['title']\<close>, which raises \<open>KeyError\<close> on a record without a title.
  The save (line 443) follows the append and precedes the reply.
\<close>

definition add_participant :: "env \<Rightarrow> string \<Rightarrow> cog \<Rightarrow> cog \<times> event list" where
  "add_participant e giveaway_id s =
     (if \<not> is_allowed_guild e s then (s, [Response GuildNotAllowed])
      else
        (case map_of (giveaways s) giveaway_id of
           None \<Rightarrow> (s, [Response NotActive])
         | Some giveaway \<Rightarrow>
             if title giveaway = None then (s, [Raised KeyError])
             else if is_ended giveaway then (s, [Response AlreadyEnded])
             else
               (let user_id = py_str (interaction_user_id e);
                    joined = get_participants giveaway
                in if user_id \<in> set joined then (s, [Response AlreadyJoined])
                   else
                     (let s1 = s\<lparr>giveaways :=
                                   AList.update giveaway_id
                                     (giveaway\<lparr>participants := Some (joined @ [user_id])\<rparr>)
                                     (giveaways s)\<rparr>
                      in case save_giveaways e (giveaways s1) of
                           Inl err \<Rightarrow> (s1, [Raised err])
                         | Inr saved \<Rightarrow> (s1, saved @ [Response Joined])))))"

text \<open>
  \<open>end_giveaway_command\<close> (lines 567 to 589): the timer is cancelled, then the user
  is told that the giveaway is ending, then \<open>end_giveaway\<close> is called.
\<close>

definition end_giveaway_command :: "env \<Rightarrow> string \<Rightarrow> cog \<Rightarrow> cog \<times> event list" where
  "end_giveaway_command e giveaway_id s =
     (if \<not> is_admin e then (s, [])
      else
        (case map_of (giveaways s) giveaway_id of
           None \<Rightarrow> (s, [Response GiveawayNotFound])
         | Some giveaway \<Rightarrow>
             if is_ended giveaway then (s, [Response AlreadyEnded])
             else
               (let s1 = cancel_scheduled giveaway_id s
                in if \<not> reply_ok e then (s1, [Raised HTTPException])
                   else
                     (let ending = end_giveaway e giveaway_id s1
                      in (fst ending, Response EndingEarly # snd ending)))))"

text \<open>
  The \<open>try\<close> block of \<open>cancel_giveaway\<close> that rewrites the giveaway's message (lines
  619 to 632); every exception is caught and logged.
\<close>

definition cancel_message_update :: "env \<Rightarrow> giveaway \<Rightarrow> event list" where
  "cancel_message_update e g =
     (case channel_id g of
        None \<Rightarrow> [Log (ErrorUpdating KeyError)]
      | Some cid \<Rightarrow>
          (case py_int cid of
             Inl err \<Rightarrow> [Log (ErrorUpdating err)]
           | Inr c \<Rightarrow>
               if \<not> get_channel e c then []
               else
                 (case message_id g of
                    None \<Rightarrow> [Log (ErrorUpdating KeyError)]
                  | Some mid \<Rightarrow>
                      (case py_int mid of
                         Inl err \<Rightarrow> [Log (ErrorUpdating err)]
                       | Inr m \<Rightarrow>
                           (case fetch_message e c m of
                              Message (Some _) \<Rightarrow>
                                if edit_ok e then [MessageEdit c m CancelledByAdmin]
                                else [Log (ErrorUpdating HTTPException)]
                            | Message None \<Rightarrow> []
                            | _ \<Rightarrow> [Log (ErrorUpdating HTTPException)])))))"

text \<open>
  \<open>cancel_giveaway\<close> (lines 594 to 635).  The save (line 616) is outside the
  \<open>try\<close> block of the message update, so its exception leaves the handler.
\<close>

definition cancel_giveaway :: "env \<Rightarrow> string \<Rightarrow> cog \<Rightarrow> cog \<times> event list" where
  "cancel_giveaway e giveaway_id s =
     (if \<not> is_admin e then (s, [])
      else
        (case map_of (giveaways s) giveaway_id of
           None \<Rightarrow> (s, [Response GiveawayNotFound])
         | Some giveaway \<Rightarrow>
             if is_ended giveaway then (s, [Response AlreadyEnded])
             else
               (let s1 = (cancel_scheduled giveaway_id s)
                           \<lparr>active_giveaways := AList.delete giveaway_id (active_giveaways s)\<rparr>;
                    g = giveaway\<lparr>ended := Some True\<rparr>;
                    s2 = s1\<lparr>giveaways := AList.update giveaway_id g (giveaways s1)\<rparr>
                in case save_giveaways e (giveaways s2) of
                     Inl err \<Rightarrow> (s2, [Raised err])
                   | Inr saved \<Rightarrow>
                       (s2, saved @ cancel_message_update e g @ [Response CancelDone]))))"

text \<open>
  The \<open>try\<close> block of \<open>set_exact_time\<close> that rewrites the end time in the giveaway's
  message (lines 689 to 706); every exception is caught and logged.
\<close>

definition time_message_update :: "env \<Rightarrow> giveaway \<Rightarrow> timestamp \<Rightarrow> event list" where
  "time_message_update e g end_timestamp =
     (case (case channel_id g of None \<Rightarrow> Inr 0 | Some cid \<Rightarrow> py_int cid) of
        Inl err \<Rightarrow> [Log (ErrorUpdating err)]
      | Inr c \<Rightarrow>
          (case (case message_id g of None \<Rightarrow> Inr 0 | Some mid \<Rightarrow> py_int mid) of
             Inl err \<Rightarrow> [Log (ErrorUpdating err)]
           | Inr m \<Rightarrow>
               if get_channel e c \<and> m \<noteq> 0 then
                 (case fetch_message e c m of
                    Message (Some has_marker) \<Rightarrow>
                      if has_marker then
                        (if edit_ok e then [MessageEdit c m (NewEnd end_timestamp)]
                         else [Log (ErrorUpdating HTTPException)])
                      else []
                  | Message None \<Rightarrow> []
                  | _ \<Rightarrow> [Log (ErrorUpdating HTTPException)])
               else []))"

text \<open>
  Lines 662 to 673: the requested end as a \<open>datetime\<close>.
\<close>

definition parse_date_time :: "string \<Rightarrow> string \<Rightarrow> py_error + datetime" where
  "parse_date_time date time =
     (case unpack_ints3 (CHR ''.'') date of
        Inl err \<Rightarrow> Inl err
      | Inr (day, month, year) \<Rightarrow>
          (case unpack_ints2 (CHR '':'') time of
             Inl err \<Rightarrow> Inl err
           | Inr (hour, minute) \<Rightarrow> py_datetime year month day hour minute))"

text \<open>
  The two handlers of the outer \<open>try\<close> block of \<open>set_exact_time\<close> (lines 713 to
  723): a \<open>ValueError\<close> is answered with the format hint, any other exception is
  logged and answered with its text.
\<close>

definition set_exact_time_except :: "py_error \<Rightarrow> event list" where
  "set_exact_time_except err =
     (if err = ValueError then [Response BadFormat]
      else [Log (ErrorSettingTime err), Response (SetTimeError err)])"

text \<open>
  \<open>set_exact_time\<close> (lines 644 to 723).  The tests come in this order: the giveaway
  exists, it has not ended, the date and the time can be read, the end lies after now.
  The save (line 681) stands between the cancellation of the old timer with the
  assignment of \<open>end_time\<close> and the creation of the new timer (line 684); its
  exception lands in the second handler.
\<close>

definition set_exact_time ::
  "env \<Rightarrow> string \<Rightarrow> string \<Rightarrow> string \<Rightarrow> cog \<Rightarrow> cog \<times> event list" where
  "set_exact_time e giveaway_id date time s =
     (if \<not> is_admin e then (s, [])
      else
        (case map_of (giveaways s) giveaway_id of
           None \<Rightarrow> (s, [Response GiveawayNotFound])
         | Some giveaway \<Rightarrow>
             if is_ended giveaway then (s, [Response CannotChangeEnded])
             else
               (case parse_date_time date time of
                  Inl err \<Rightarrow> (s, set_exact_time_except err)
                | Inr end_dt \<Rightarrow>
                    if end_dt \<le> now e then (s, [Response MustBeFuture])
                    else
                      (case to_timestamp e end_dt of
                         Inl err \<Rightarrow> (s, set_exact_time_except err)
                       | Inr end_timestamp \<Rightarrow>
                           (case to_timestamp e (now e) of
                              Inl err \<Rightarrow> (s, set_exact_time_except err)
                            | Inr now_ts \<Rightarrow>
                                (let seconds_until_end = end_timestamp - now_ts;
                                     s1 = cancel_scheduled giveaway_id s;
                                     g = giveaway\<lparr>end_time := Some end_timestamp\<rparr>;
                                     s2 = s1\<lparr>giveaways :=
                                              AList.update giveaway_id g (giveaways s1)\<rparr>
                                 in case save_giveaways e (giveaways s2) of
                                      Inl err \<Rightarrow> (s2, set_exact_time_except err)
                                    | Inr saved \<Rightarrow>
                                        ((create_task giveaway_id
                                            (Some seconds_until_end) s2)
                                           \<lparr>active_giveaways :=
                                              AList.update giveaway_id (length (tasks s2))
                                                (active_giveaways s2)\<rparr>,
                                         saved @ time_message_update e g end_timestamp
                                         @ [Response TimeChanged])))))))"

section \<open>Notions used to state the properties\<close>

text \<open>No giveaway lists a participant twice.\<close>

definition no_duplicate_participants :: "cog \<Rightarrow> bool" where
  "no_duplicate_participants s =
     list_all (\<lambda>item. distinct (get_participants (snd item))) (giveaways s)"

text \<open>
  The task that start-up owes a giveaway that has not ended: a timer for the time that
  is left when the end lies ahead, the resolution itself otherwise.
\<close>

definition startup_task :: "timestamp \<Rightarrow> string \<times> giveaway \<Rightarrow> task" where
  "startup_task now_ts item =
     \<lparr>task_giveaway = fst item,
      task_delay = (if get_end_time (snd item) > now_ts
                    then Some (get_end_time (snd item) - now_ts) else None),
      status = Pending\<rparr>"

text \<open>The announcements of a winner among the effects of a call.\<close>

fun is_winner_selection :: "event \<Rightarrow> bool" where
  "is_winner_selection (ChannelSend _ (Winner _ _ _)) = True"
| "is_winner_selection _ = False"

definition winner_selections :: "event list \<Rightarrow> nat" where
  "winner_selections evs = length (filter is_winner_selection evs)"

text \<open>The effects of a call without the record of its save: what users can see.\<close>

fun is_save_record :: "event \<Rightarrow> bool" where
  "is_save_record (Saved _) = True"
| "is_save_record SaveFailed = True"
| "is_save_record _ = False"

definition visible :: "event list \<Rightarrow> event list" where
  "visible evs = filter (\<lambda>ev. \<not> is_save_record ev) evs"

subsection \<open>A sample world\<close>

text \<open>
  One administrator on an allowed server at 2024-02-29 23:59 local time, a platform
  that converts local time as UTC, and a cog with one open giveaway \<open>g\<close> in channel
  10, announced in message 20, joined by user 7, with its timer as task 0.
\<close>

definition sample_env :: env where
  "sample_env =
     \<lparr>is_admin = True,
      interaction_user_id = 7,
      interaction_guild_id = 714813888226525226,
      interaction_channel_id = 10,
      sent_message_id = 21,
      now = 63844847940000000,
      now_repr = ''1709251140.0'',
      to_timestamp = (\<lambda>dt. Inr (real_of_int dt / 1000000 - 62135596800)),
      data_dir_ok = True,
      save_ok = True,
      reply_ok = True,
      get_channel = (\<lambda>c. c = 10),
      fetch_message = (\<lambda>c m. if m = 20 then Message (Some True) else NotFound),
      send_ok = True,
      edit_ok = True,
      gif_file_exists = (\<lambda>_. False),
      rand_winner = 0,
      rand_prize = 0\<rparr>"

definition sample_giveaway :: giveaway where
  "sample_giveaway =
     \<lparr>title = Some ''Box'',
      description = Some ''Join'',
      creator_id = Some ''1'',
      channel_id = Some ''10'',
      message_id = Some ''20'',
      guild_id = Some ''714813888226525226'',
      end_time = Some 1709251200,
      participants = Some [''7''],
      ended = Some False,
      assigned_prizes = None,
      prize_list_id = None,
      celebration_gif = None\<rparr>"

definition sample_cog :: cog where
  "sample_cog =
     \<lparr>giveaways = [(''g'', sample_giveaway)],
      prizes = [(''1'', ''Mug'')],
      gifs = [],
      debug_mode = False,
      tasks = [\<lparr>task_giveaway = ''g'', task_delay = Some 60, status = Pending\<rparr>],
      active_giveaways = [(''g'', 0)]\<rparr>"

text \<open>
  A cog as it is loaded at start-up, before any task exists: \<open>old\<close> has ended,
  \<open>late\<close> should have ended at time 100, \<open>soon\<close> ends at time 2000.
\<close>

definition startup_cog :: cog where
  "startup_cog =
     \<lparr>giveaways = [(''old'', sample_giveaway\<lparr>ended := Some True\<rparr>),
                   (''late'', sample_giveaway\<lparr>end_time := Some 100\<rparr>),
                   (''soon'', sample_giveaway\<lparr>end_time := Some 2000\<rparr>)],
      prizes = [],
      gifs = [],
      debug_mode = False,
      tasks = [],
      active_giveaways = []\<rparr>"

section \<open>Properties of the prize resolver\<close>

subsection \<open>Splitting\<close>

lemma split_on_not_Nil: "split_on sep s \<noteq> []"
  by (induction s) (auto split: list.splits)

lemma split_on_no_sep: "sep \<notin> set s \<Longrightarrow> split_on sep s = [s]"
  by (induction s) (auto split: list.splits)

lemma split_on_append: "split_on sep (xs @ sep # ys) = split_on sep xs @ split_on sep ys"
proof (induction xs)
  case Nil
  show ?case using split_on_not_Nil [of sep ys] by (simp split: list.splits)
next
  case (Cons x xs)
  then show ?case using split_on_not_Nil [of sep xs] by (cases "split_on sep xs") auto
qed

lemma split_on_single: "split_on sep s = [x] \<Longrightarrow> s = x \<and> sep \<notin> set x"
proof (induction s arbitrary: x)
  case Nil
  then show ?case by simp
next
  case (Cons c cs)
  obtain p ps where ps: "split_on sep cs = p # ps"
    using split_on_not_Nil [of sep cs] by (cases "split_on sep cs") auto
  with Cons.prems have "c \<noteq> sep" and "ps = []" and "x = c # p"
    by (auto split: if_splits)
  with ps Cons.IH [of p] show ?case by simp
qed

lemma split_on_two:
  "split_on sep s = [x, y] \<longleftrightarrow> s = x @ sep # y \<and> sep \<notin> set x \<and> sep \<notin> set y"
proof
  assume "split_on sep s = [x, y]"
  then show "s = x @ sep # y \<and> sep \<notin> set x \<and> sep \<notin> set y"
  proof (induction s arbitrary: x)
    case Nil
    then show ?case by simp
  next
    case (Cons c cs)
    obtain p ps where ps: "split_on sep cs = p # ps"
      using split_on_not_Nil [of sep cs] by (cases "split_on sep cs") auto
    show ?case
    proof (cases "c = sep")
      case True
      with Cons.prems ps have "x = []" and "split_on sep cs = [y]" by auto
      with True split_on_single [of sep cs y] show ?thesis by simp
    next
      case False
      with Cons.prems ps have "x = c # p" and "split_on sep cs = [p, y]" by auto
      with False Cons.IH [of p] show ?thesis by simp
    qed
  qed
next
  assume "s = x @ sep # y \<and> sep \<notin> set x \<and> sep \<notin> set y"
  then show "split_on sep s = [x, y]"
    by (simp add: split_on_append split_on_no_sep)
qed

subsection \<open>One token\<close>

lemma range_bounds_no_dash:
  "CHR ''-'' \<notin> set part \<Longrightarrow> range_bounds part = Inl ValueError"
  by (simp add: range_bounds_def split_on_no_sep)

lemma range_bounds_iff:
  "range_bounds part = Inr (a, b) \<longleftrightarrow>
     (\<exists>x y. part = x @ CHR ''-'' # y \<and> CHR ''-'' \<notin> set x \<and> CHR ''-'' \<notin> set y
            \<and> py_int (strip x) = Inr a \<and> py_int (strip y) = Inr b)"
proof
  assume r: "range_bounds part = Inr (a, b)"
  then obtain x y where xy: "split_on (CHR ''-'') part = [x, y]"
    by (auto simp: range_bounds_def split: list.splits)
  with r have "py_int (strip x) = Inr a \<and> py_int (strip y) = Inr b"
    by (auto simp: range_bounds_def split: sum.splits)
  with xy show "\<exists>x y. part = x @ CHR ''-'' # y \<and> CHR ''-'' \<notin> set x \<and> CHR ''-'' \<notin> set y
            \<and> py_int (strip x) = Inr a \<and> py_int (strip y) = Inr b"
    using split_on_two [of "CHR ''-''" part x y] by blast
next
  assume "\<exists>x y. part = x @ CHR ''-'' # y \<and> CHR ''-'' \<notin> set x \<and> CHR ''-'' \<notin> set y
            \<and> py_int (strip x) = Inr a \<and> py_int (strip y) = Inr b"
  then obtain x y where "split_on (CHR ''-'') part = [x, y]"
      and "py_int (strip x) = Inr a" and "py_int (strip y) = Inr b"
    using split_on_two [of "CHR ''-''" part] by blast
  then show "range_bounds part = Inr (a, b)"
    by (simp add: range_bounds_def)
qed

lemma process_part_token_ids:
  "process_part catalog acc part = foldl (lookup_into catalog) acc (token_ids part)"
  by (auto simp: process_part_def token_ids_def range_bounds_no_dash split: sum.splits)

lemma token_ids_empty:
  "token_ids part = [] \<longleftrightarrow> (\<exists>a b. range_bounds part = Inr (a, b) \<and> b < a)"
  by (auto simp: token_ids_def split: sum.splits)

subsection \<open>The two accumulators\<close>

lemma foldl_lookup_snd:
  "snd (foldl (lookup_into catalog) acc ids) = snd acc @ filter (\<lambda>k. catalog k = None) ids"
  by (induction ids arbitrary: acc) (auto simp: lookup_into_def split: option.splits)

lemma lookup_into_map_of:
  "map_of (fst (lookup_into catalog acc k)) ++ (catalog |` S)
     = map_of (fst acc) ++ (catalog |` insert k S)"
  by (rule ext)
     (auto simp: lookup_into_def AList.update_conv' map_add_def restrict_map_def
           split: option.splits)

lemma foldl_lookup_map_of:
  "map_of (fst (foldl (lookup_into catalog) acc ids)) = map_of (fst acc) ++ (catalog |` set ids)"
proof (induction ids arbitrary: acc)
  case Nil
  show ?case by simp
next
  case (Cons k ids)
  have "map_of (fst (foldl (lookup_into catalog) acc (k # ids)))
      = map_of (fst (lookup_into catalog acc k)) ++ (catalog |` set ids)"
    using Cons.IH [of "lookup_into catalog acc k"] by simp
  also have "\<dots> = map_of (fst acc) ++ (catalog |` set (k # ids))"
    by (simp add: lookup_into_map_of)
  finally show ?case .
qed

lemma foldl_lookup_distinct:
  "distinct (map fst (fst acc)) \<Longrightarrow>
   distinct (map fst (fst (foldl (lookup_into catalog) acc ids)))"
  by (induction ids arbitrary: acc)
     (auto simp: lookup_into_def AList.distinct_update split: option.splits)

lemma foldl_process_part:
  "foldl (process_part catalog) acc ts
     = foldl (lookup_into catalog) acc (concat (map token_ids ts))"
  by (induction ts arbitrary: acc) (simp_all add: process_part_token_ids)

lemma parse_prize_ids_ids:
  "parse_prize_ids s catalog
     = foldl (lookup_into catalog) ([], []) (concat (map token_ids (tokens s)))"
  by (simp add: parse_prize_ids_def tokens_def foldl_process_part)

subsection \<open>The resolver classifies every id\<close>

text \<open>
  Claim C4, as the code has it.  \<open>parse_prize_ids\<close> is a total function: the only
  exceptions of its body, the \<open>ValueError\<close> of the unpacking and of \<open>int\<close>, are
  caught in it, so no token raises.  A token is a well-formed range \<open>A-B\<close> exactly
  when it has one hyphen with an integer, as \<open>int\<close> reads it, on either side; such
  a token stands for the decimal forms of \<open>A, A+1, ..., B\<close> in this order, and any
  other token, a malformed range included, stands for itself (\<open>token_ids\<close>).  What
  is classified are these ids, not the tokens: a token stands for no id at all exactly
  when it is a well-formed range with \<open>A > B\<close>, and such a token appears on
  neither side.  Of the ids the tokens stand for, those that the catalog lacks make up
  \<open>unresolved\<close>, in the order of the tokens and ascending within a range, and those
  that the catalog has make up \<open>resolved\<close> with their catalog names, each id once:
  every id ends on exactly one side.  For the specification \<open>1,5-6\<close> and the
  catalog \<open>{1: A, 5: E}\<close> the result is \<open>{1: A, 5: E}\<close> and \<open>[6]\<close>.
\<close>

theorem parse_prize_ids_classifies:
  "(range_bounds part = Inr (a, b) \<longleftrightarrow>
      (\<exists>x y. part = x @ CHR ''-'' # y \<and> CHR ''-'' \<notin> set x \<and> CHR ''-'' \<notin> set y
             \<and> py_int (strip x) = Inr a \<and> py_int (strip y) = Inr b))
   \<and> (token_ids part = [] \<longleftrightarrow> (\<exists>a b. range_bounds part = Inr (a, b) \<and> b < a))
   \<and> snd (parse_prize_ids prize_ids_str catalog) =
       concat (map (\<lambda>t. filter (\<lambda>k. catalog k = None) (token_ids t)) (tokens prize_ids_str))
   \<and> map_of (fst (parse_prize_ids prize_ids_str catalog)) =
       catalog |` (\<Union>t \<in> set (tokens prize_ids_str). set (token_ids t))
   \<and> distinct (map fst (fst (parse_prize_ids prize_ids_str catalog)))
   \<and> parse_prize_ids ''1,5-6'' [''1'' \<mapsto> ''A'', ''5'' \<mapsto> ''E'']
       = ([(''1'', ''A''), (''5'', ''E'')], [''6''])"
proof -
  have a: "snd (parse_prize_ids prize_ids_str catalog) =
     concat (map (\<lambda>t. filter (\<lambda>k. catalog k = None) (token_ids t)) (tokens prize_ids_str))"
    by (simp add: parse_prize_ids_ids foldl_lookup_snd filter_concat comp_def)
  have b: "map_of (fst (parse_prize_ids prize_ids_str catalog)) =
     catalog |` (\<Union>t \<in> set (tokens prize_ids_str). set (token_ids t))"
    by (simp add: parse_prize_ids_ids foldl_lookup_map_of)
  have c: "distinct (map fst (fst (parse_prize_ids prize_ids_str catalog)))"
    by (simp add: parse_prize_ids_ids foldl_lookup_distinct)
  have d: "parse_prize_ids ''1,5-6'' [''1'' \<mapsto> ''A'', ''5'' \<mapsto> ''E'']
       = ([(''1'', ''A''), (''5'', ''E'')], [''6''])"
    by code_simp
  from a b c d range_bounds_iff [of part a b] token_ids_empty [of part] show ?thesis
    by blast
qed

text \<open>
  The claim as stated fails: the token \<open>5-3\<close> is a well-formed range and raises
  nothing, but its outcome is neither resolved nor unresolved, whether the catalog
  holds the integers between its bounds, the token itself, or nothing.
\<close>

theorem backwards_range_unclassified:
  "tokens ''5-3'' = [''5-3'']
   \<and> range_bounds ''5-3'' = Inr (5, 3)
   \<and> token_ids ''5-3'' = []
   \<and> parse_prize_ids ''5-3''
        [''3'' \<mapsto> ''C'', ''4'' \<mapsto> ''D'', ''5'' \<mapsto> ''E'', ''5-3'' \<mapsto> ''X'']
       = ([], [])
   \<and> parse_prize_ids ''5-3'' Map.empty = ([], [])"
  by code_simp

subsection \<open>A range that runs backwards\<close>

text \<open>
  Claim C10.  A token whose two bounds are integers with the first greater than the
  second adds nothing to \<open>resolved\<close> and nothing to \<open>unresolved\<close>: the loop body
  leaves both accumulators as they are, a specification that is this token alone has
  the empty result, and taking the token out of a longer specification does not change
  the result.
\<close>

theorem reversed_range_dropped:
  assumes "range_bounds (strip t) = Inr (a, b)" and "b < a" and "CHR '','' \<notin> set t"
  shows "process_part catalog acc (strip t) = acc
    \<and> parse_prize_ids t catalog = ([], [])
    \<and> parse_prize_ids (pre @ CHR '','' # t @ CHR '','' # post) catalog
        = parse_prize_ids (pre @ CHR '','' # post) catalog"
proof -
  have ids: "token_ids (strip t) = []"
    using assms(1,2) by (simp add: token_ids_def)
  have step: "\<And>acc. process_part catalog acc (strip t) = acc"
    by (simp add: process_part_token_ids ids)
  have one: "parse_prize_ids t catalog = ([], [])"
    using assms(3) by (simp add: parse_prize_ids_def split_on_no_sep step)
  have "split_on (CHR '','') (pre @ CHR '','' # t @ CHR '','' # post)
      = split_on (CHR '','') pre @ [t] @ split_on (CHR '','') post"
    using assms(3) by (simp add: split_on_append split_on_no_sep)
  moreover have "split_on (CHR '','') (pre @ CHR '','' # post)
      = split_on (CHR '','') pre @ split_on (CHR '','') post"
    by (simp add: split_on_append)
  ultimately have "parse_prize_ids (pre @ CHR '','' # t @ CHR '','' # post) catalog
        = parse_prize_ids (pre @ CHR '','' # post) catalog"
    by (simp add: parse_prize_ids_def step)
  with step one show ?thesis by blast
qed

theorem reversed_range_dropped_witness:
  "range_bounds (strip '' 5-3'') = Inr (5, 3) \<and> (3::int) < 5 \<and> CHR '','' \<notin> set '' 5-3''
   \<and> process_part [''4'' \<mapsto> ''D''] ([], [''x'']) (strip '' 5-3'') = ([], [''x''])
   \<and> parse_prize_ids '' 5-3'' [''4'' \<mapsto> ''D''] = ([], [])
   \<and> parse_prize_ids ''4, 5-3,9'' [''4'' \<mapsto> ''D'']
       = parse_prize_ids ''4,9'' [''4'' \<mapsto> ''D'']"
proof -
  have h1: "range_bounds (strip '' 5-3'') = Inr (5, 3)" by code_simp
  have h2: "(3::int) < 5" by simp
  have h3: "CHR '','' \<notin> set '' 5-3''" by simp
  from reversed_range_dropped [OF h1 h2 h3, of "[''4'' \<mapsto> ''D'']" "([], [''x''])" "''4''" "''9''"]
    h1 h2 h3
  show ?thesis by simp
qed

section \<open>Properties of the giveaway cog\<close>

subsection \<open>Evaluation of the sample world\<close>

lemmas sample_defs = sample_env_def sample_giveaway_def sample_cog_def

lemma py_int_10: "py_int ''10'' = Inr 10"
  by code_simp

lemma py_int_20: "py_int ''20'' = Inr 20"
  by code_simp

lemma py_str_7: "py_str 7 = ''7''"
  by (simp add: py_str_def nat_digits.simps digit_char_def)

lemma py_str_8: "py_str 8 = ''8''"
  by (simp add: py_str_def nat_digits.simps digit_char_def)

subsection \<open>Basic facts about the operations\<close>

lemmas end_defs = end_giveaway_def deliver_def announce_def send_and_edit_def select_prize_def
  random_choice_def with_gif_def get_participants_def get_assigned_prizes_def save_giveaways_def
  ensure_data_directory_def is_ended_def Let_def

lemma end_giveaway_marks_ended:
  assumes "map_of (giveaways s) gid = Some g"
  shows "map_of (giveaways (fst (end_giveaway e gid s))) gid = Some (g\<lparr>ended := Some True\<rparr>)"
  using assms by (simp add: end_giveaway_def Let_def AList.update_conv' split: sum.splits)

lemma end_giveaway_giveaways:
  assumes "map_of (giveaways s) gid = Some g"
  shows "giveaways (fst (end_giveaway e gid s))
           = AList.update gid (g\<lparr>ended := Some True\<rparr>) (giveaways s)"
  using assms by (simp add: end_giveaway_def Let_def split: sum.splits)

lemma end_giveaway_tasks: "tasks (fst (end_giveaway e gid s)) = tasks s"
  by (simp add: end_giveaway_def Let_def split: option.splits sum.splits)

lemma save_giveaways_cases:
  "save_giveaways e gs = Inl OSError \<and> \<not> data_dir_ok e
   \<or> save_giveaways e gs = Inr [Saved gs] \<and> data_dir_ok e \<and> save_ok e
   \<or> save_giveaways e gs = Inr [SaveFailed] \<and> data_dir_ok e \<and> \<not> save_ok e"
  by (simp add: save_giveaways_def ensure_data_directory_def)

lemma length_cancel_task: "length (cancel_task h ts) = length ts"
  by (simp add: cancel_task_def)

lemma cancel_task_cancels:
  "h < length ts \<Longrightarrow> status (ts ! h) = Pending \<Longrightarrow> status (cancel_task h ts ! h) = Cancelled"
  by (simp add: cancel_task_def)

lemma cancel_scheduled_fields:
  "giveaways (cancel_scheduled gid s) = giveaways s"
  "active_giveaways (cancel_scheduled gid s) = active_giveaways s"
  "prizes (cancel_scheduled gid s) = prizes s"
  "gifs (cancel_scheduled gid s) = gifs s"
  "debug_mode (cancel_scheduled gid s) = debug_mode s"
  by (simp_all add: cancel_scheduled_def split: option.splits)

lemma cancel_scheduled_tasks:
  "tasks (cancel_scheduled gid s)
     = (case map_of (active_giveaways s) gid of
          None \<Rightarrow> tasks s | Some h \<Rightarrow> cancel_task h (tasks s))"
  by (simp add: cancel_scheduled_def split: option.splits)

lemma length_cancel_scheduled:
  "length (tasks (cancel_scheduled gid s)) = length (tasks s)"
  by (simp add: cancel_scheduled_tasks length_cancel_task split: option.splits)

lemma reload_step_giveaways: "giveaways (reload_step now_ts s item) = giveaways s"
  by (simp add: reload_step_def Let_def create_task_def)

lemma reload_fold_giveaways: "giveaways (foldl (reload_step now_ts) s items) = giveaways s"
  by (induction items arbitrary: s) (simp_all add: reload_step_giveaways)

subsection \<open>Joining\<close>

lemma list_all_update:
  "list_all P xs \<Longrightarrow> P (k, v) \<Longrightarrow> list_all P (AList.update k v xs)"
  by (induction xs) auto

lemma add_participant_present:
  assumes "map_of (giveaways s) gid = Some g"
    and "py_str (interaction_user_id e) \<in> set (get_participants g)"
  shows "fst (add_participant e gid s) = s"
    and "Response Joined \<notin> set (snd (add_participant e gid s))"
  using assms by (auto simp: add_participant_def Let_def split: option.splits)

lemma add_participant_already:
  assumes "map_of (giveaways s) gid = Some g"
    and "py_str (interaction_user_id e) \<in> set (get_participants g)"
    and "is_allowed_guild e s" and "title g \<noteq> None" and "\<not> is_ended g"
  shows "add_participant e gid s = (s, [Response AlreadyJoined])"
  using assms by (auto simp: add_participant_def Let_def split: option.splits)

lemma add_participant_joined:
  assumes "Response Joined \<in> set (snd (add_participant e gid s))"
  obtains g where "map_of (giveaways s) gid = Some g"
    and "py_str (interaction_user_id e) \<notin> set (get_participants g)"
    and "fst (add_participant e gid s) =
           s\<lparr>giveaways := AList.update gid
               (g\<lparr>participants := Some (get_participants g @ [py_str (interaction_user_id e)])\<rparr>)
               (giveaways s)\<rparr>"
  using assms
  by (auto simp: add_participant_def Let_def split: option.splits if_splits sum.splits)

lemma add_participant_twice:
  assumes "Response Joined \<in> set (snd (add_participant e gid s))"
    and "interaction_user_id e' = interaction_user_id e"
  shows "fst (add_participant e' gid (fst (add_participant e gid s))) = fst (add_participant e gid s)"
    and "Response Joined \<notin> set (snd (add_participant e' gid (fst (add_participant e gid s))))"
proof -
  from assms(1) obtain g where g: "map_of (giveaways s) gid = Some g"
    and s': "fst (add_participant e gid s) =
           s\<lparr>giveaways := AList.update gid
               (g\<lparr>participants := Some (get_participants g @ [py_str (interaction_user_id e)])\<rparr>)
               (giveaways s)\<rparr>"
    by (rule add_participant_joined)
  let ?g' = "g\<lparr>participants := Some (get_participants g @ [py_str (interaction_user_id e)])\<rparr>"
  let ?s' = "fst (add_participant e gid s)"
  have m: "map_of (giveaways ?s') gid = Some ?g'"
    by (simp add: s' AList.update_conv')
  have u: "py_str (interaction_user_id e') \<in> set (get_participants ?g')"
    by (simp add: assms(2) get_participants_def)
  show "fst (add_participant e' gid ?s') = ?s'"
    using add_participant_present(1) [OF m u] .
  show "Response Joined \<notin> set (snd (add_participant e' gid ?s'))"
    using add_participant_present(2) [OF m u] .
qed

lemma add_participant_state:
  "fst (add_participant e gid s) = s
   \<or> (\<exists>g. map_of (giveaways s) gid = Some g
          \<and> py_str (interaction_user_id e) \<notin> set (get_participants g)
          \<and> fst (add_participant e gid s) =
               s\<lparr>giveaways := AList.update gid
                   (g\<lparr>participants :=
                        Some (get_participants g @ [py_str (interaction_user_id e)])\<rparr>)
                   (giveaways s)\<rparr>)"
  by (auto simp: add_participant_def Let_def split: option.splits sum.splits)

lemma add_participant_distinct:
  assumes "no_duplicate_participants s"
  shows "no_duplicate_participants (fst (add_participant e gid s))"
  using add_participant_state [of e gid s]
proof
  assume "fst (add_participant e gid s) = s"
  with assms show ?thesis by simp
next
  assume "\<exists>g. map_of (giveaways s) gid = Some g
          \<and> py_str (interaction_user_id e) \<notin> set (get_participants g)
          \<and> fst (add_participant e gid s) =
               s\<lparr>giveaways := AList.update gid
                   (g\<lparr>participants :=
                        Some (get_participants g @ [py_str (interaction_user_id e)])\<rparr>)
                   (giveaways s)\<rparr>"
  then obtain g where g: "map_of (giveaways s) gid = Some g"
    and new: "py_str (interaction_user_id e) \<notin> set (get_participants g)"
    and s': "fst (add_participant e gid s) =
           s\<lparr>giveaways := AList.update gid
               (g\<lparr>participants := Some (get_participants g @ [py_str (interaction_user_id e)])\<rparr>)
               (giveaways s)\<rparr>"
    by blast
  from g have "(gid, g) \<in> set (giveaways s)" by (rule map_of_SomeD)
  with assms have "distinct (get_participants g)"
    by (auto simp: no_duplicate_participants_def list_all_iff)
  with new assms show ?thesis
    by (simp add: s' no_duplicate_participants_def list_all_update get_participants_def)
qed

lemma no_duplicate_update:
  assumes "no_duplicate_participants s" and "distinct (get_participants g')"
    and "giveaways s' = AList.update gid g' (giveaways s)"
  shows "no_duplicate_participants s'"
  using assms by (simp add: no_duplicate_participants_def list_all_update)

lemma no_duplicate_same:
  "no_duplicate_participants s \<Longrightarrow> giveaways s' = giveaways s \<Longrightarrow> no_duplicate_participants s'"
  by (simp add: no_duplicate_participants_def)

lemma no_duplicate_lookup:
  "no_duplicate_participants s \<Longrightarrow> map_of (giveaways s) gid = Some g \<Longrightarrow>
   distinct (get_participants g)"
proof -
  assume inv: "no_duplicate_participants s" and "map_of (giveaways s) gid = Some g"
  then have "(gid, g) \<in> set (giveaways s)" by (simp add: map_of_SomeD)
  with inv show ?thesis
    by (auto simp: no_duplicate_participants_def list_all_iff)
qed

lemma end_giveaway_distinct:
  assumes "no_duplicate_participants s"
  shows "no_duplicate_participants (fst (end_giveaway e gid s))"
proof (cases "map_of (giveaways s) gid")
  case None
  then show ?thesis using assms by (simp add: end_giveaway_def)
next
  case (Some g)
  have "distinct (get_participants (g\<lparr>ended := Some True\<rparr>))"
    using no_duplicate_lookup [OF assms Some] by (simp add: get_participants_def)
  moreover have "giveaways (fst (end_giveaway e gid s))
      = AList.update gid (g\<lparr>ended := Some True\<rparr>) (giveaways s)"
    using Some by (rule end_giveaway_giveaways)
  ultimately show ?thesis using assms by (rule no_duplicate_update [rotated])
qed

lemma cancel_scheduled_distinct:
  "no_duplicate_participants s \<Longrightarrow> no_duplicate_participants (cancel_scheduled gid s)"
  by (rule no_duplicate_same) (simp_all add: cancel_scheduled_fields)

lemma end_giveaway_command_distinct:
  assumes "no_duplicate_participants s"
  shows "no_duplicate_participants (fst (end_giveaway_command e gid s))"
  using assms end_giveaway_distinct [OF cancel_scheduled_distinct [OF assms], of e gid gid]
    cancel_scheduled_distinct [OF assms, of gid]
  by (simp add: end_giveaway_command_def Let_def split: option.splits)

lemma run_task_distinct:
  assumes "no_duplicate_participants s"
  shows "no_duplicate_participants (fst (run_task e h s))"
proof -
  let ?s1 = "s\<lparr>tasks := (tasks s)[h := (tasks s ! h)\<lparr>status := Finished\<rparr>]\<rparr>"
  have "no_duplicate_participants ?s1"
    using assms by (rule no_duplicate_same) simp
  from end_giveaway_distinct [OF this] assms show ?thesis
    by (simp add: run_task_def)
qed

lemma cancel_giveaway_distinct:
  assumes "no_duplicate_participants s"
  shows "no_duplicate_participants (fst (cancel_giveaway e gid s))"
proof (cases "is_admin e \<and> (\<exists>g. map_of (giveaways s) gid = Some g \<and> \<not> is_ended g)")
  case False
  then have "fst (cancel_giveaway e gid s) = s"
    by (auto simp: cancel_giveaway_def split: option.splits)
  with assms show ?thesis by simp
next
  case True
  then obtain g where g: "map_of (giveaways s) gid = Some g" "\<not> is_ended g" "is_admin e"
    by blast
  have "distinct (get_participants (g\<lparr>ended := Some True\<rparr>))"
    using no_duplicate_lookup [OF assms g(1)] by (simp add: get_participants_def)
  moreover have "giveaways (fst (cancel_giveaway e gid s))
      = AList.update gid (g\<lparr>ended := Some True\<rparr>) (giveaways s)"
    using g by (simp add: cancel_giveaway_def Let_def cancel_scheduled_fields split: sum.splits)
  ultimately show ?thesis using assms by (rule no_duplicate_update [rotated])
qed

lemma create_giveaway_distinct:
  assumes "no_duplicate_participants s"
  shows "no_duplicate_participants (fst (create_giveaway e hours minutes ttl descr s))"
  using assms
  by (auto simp: create_giveaway_def Let_def create_task_def no_duplicate_participants_def
        list_all_update get_participants_def split: sum.splits)

lemma set_exact_time_distinct:
  assumes "no_duplicate_participants s"
  shows "no_duplicate_participants (fst (set_exact_time e gid date time s))"
proof (cases "map_of (giveaways s) gid")
  case None
  then show ?thesis using assms by (simp add: set_exact_time_def)
next
  case (Some g)
  have d: "\<And>x. distinct (get_participants (g\<lparr>end_time := x\<rparr>))"
    using no_duplicate_lookup [OF assms Some] by (simp add: get_participants_def)
  show ?thesis
    using assms Some d
    by (auto simp: set_exact_time_def Let_def create_task_def cancel_scheduled_fields
          no_duplicate_participants_def list_all_update split: sum.splits)
qed

lemma reload_distinct:
  "no_duplicate_participants s \<Longrightarrow> no_duplicate_participants (reload_active_giveaways now_ts s)"
  by (rule no_duplicate_same)
     (simp_all add: reload_active_giveaways_def reload_fold_giveaways)

text \<open>
  Claim C9.  A user who is already in the list of a giveaway changes nothing by
  joining: the cog is the same after the call and the reply is not the one of a new
  participant; where the call gets as far as the membership test the reply is
  \<open>AlreadyJoined\<close>.  After a join that succeeded, a second join by the same user
  leaves the cog, and with it the list, as the first join left it.  A cog in which no
  list holds a user twice stays so under \<open>add_participant\<close>, and under every other
  operation of the model, none of which writes a list except \<open>create_giveaway\<close>,
  which starts it empty.
\<close>

theorem add_participant_idempotent:
  "(map_of (giveaways s) gid = Some g
      \<and> py_str (interaction_user_id e) \<in> set (get_participants g) \<longrightarrow>
      fst (add_participant e gid s) = s
      \<and> Response Joined \<notin> set (snd (add_participant e gid s))
      \<and> (is_allowed_guild e s \<and> title g \<noteq> None \<and> \<not> is_ended g \<longrightarrow>
           snd (add_participant e gid s) = [Response AlreadyJoined]))
   \<and> (Response Joined \<in> set (snd (add_participant e gid s))
      \<and> interaction_user_id e' = interaction_user_id e \<longrightarrow>
      fst (add_participant e' gid (fst (add_participant e gid s)))
        = fst (add_participant e gid s)
      \<and> Response Joined
           \<notin> set (snd (add_participant e' gid (fst (add_participant e gid s)))))
   \<and> (no_duplicate_participants s \<longrightarrow>
        no_duplicate_participants (fst (add_participant e gid s))
        \<and> no_duplicate_participants (fst (create_giveaway e hours minutes ttl descr s))
        \<and> no_duplicate_participants (fst (end_giveaway e gid s))
        \<and> no_duplicate_participants (fst (run_task e h s))
        \<and> no_duplicate_participants (fst (end_giveaway_command e gid s))
        \<and> no_duplicate_participants (fst (cancel_giveaway e gid s))
        \<and> no_duplicate_participants (fst (set_exact_time e gid date time s))
        \<and> no_duplicate_participants (reload_active_giveaways now_ts s))"
  using add_participant_present [of s gid g e] add_participant_already [of s gid g e]
    add_participant_twice [of e gid s e'] add_participant_distinct [of s e gid]
    create_giveaway_distinct [of s e hours minutes ttl descr] end_giveaway_distinct [of s e gid]
    run_task_distinct [of s e h] end_giveaway_command_distinct [of s e gid]
    cancel_giveaway_distinct [of s e gid] set_exact_time_distinct [of s e gid date time]
    reload_distinct [of s now_ts]
  by simp

theorem add_participant_idempotent_witness:
  "map_of (giveaways sample_cog) ''g'' = Some sample_giveaway
   \<and> py_str (interaction_user_id sample_env) \<in> set (get_participants sample_giveaway)
   \<and> add_participant sample_env ''g'' sample_cog = (sample_cog, [Response AlreadyJoined])
   \<and> Response Joined
        \<in> set (snd (add_participant (sample_env\<lparr>interaction_user_id := 8\<rparr>) ''g'' sample_cog))
   \<and> fst (add_participant (sample_env\<lparr>interaction_user_id := 8, save_ok := False\<rparr>) ''g''
            (fst (add_participant (sample_env\<lparr>interaction_user_id := 8\<rparr>) ''g'' sample_cog)))
        = fst (add_participant (sample_env\<lparr>interaction_user_id := 8\<rparr>) ''g'' sample_cog)
   \<and> get_participants (the (map_of (giveaways
          (fst (add_participant (sample_env\<lparr>interaction_user_id := 8\<rparr>) ''g'' sample_cog)))
          ''g'')) = [''7'', ''8'']
   \<and> no_duplicate_participants sample_cog
   \<and> no_duplicate_participants
        (fst (add_participant (sample_env\<lparr>interaction_user_id := 8\<rparr>) ''g'' sample_cog))"
proof -
  let ?e8 = "sample_env\<lparr>interaction_user_id := 8\<rparr>"
  have h1: "map_of (giveaways sample_cog) ''g'' = Some sample_giveaway"
    by (simp add: sample_defs)
  have h2: "py_str (interaction_user_id sample_env) \<in> set (get_participants sample_giveaway)"
    by (simp add: sample_defs py_str_7 get_participants_def)
  have h3: "is_allowed_guild sample_env sample_cog \<and> title sample_giveaway \<noteq> None
      \<and> \<not> is_ended sample_giveaway"
    by (simp add: is_allowed_guild_def allowed_guild_ids_def is_ended_def sample_defs)
  have h4: "Response Joined \<in> set (snd (add_participant ?e8 ''g'' sample_cog))"
    by (simp add: add_participant_def is_allowed_guild_def allowed_guild_ids_def is_ended_def
        get_participants_def save_giveaways_def ensure_data_directory_def py_str_8 Let_def
        sample_defs)
  have h5: "interaction_user_id (?e8\<lparr>save_ok := False\<rparr>) = interaction_user_id ?e8"
    by simp
  have h6: "no_duplicate_participants sample_cog"
    by (simp add: no_duplicate_participants_def get_participants_def sample_defs)
  have h7: "get_participants (the (map_of (giveaways
          (fst (add_participant ?e8 ''g'' sample_cog))) ''g'')) = [''7'', ''8'']"
    by (simp add: add_participant_def is_allowed_guild_def allowed_guild_ids_def is_ended_def
        get_participants_def save_giveaways_def ensure_data_directory_def py_str_8 Let_def
        sample_defs)
  from add_participant_idempotent [of sample_cog "''g''" sample_giveaway sample_env sample_env]
    h1 h2 h3
  have a: "add_participant sample_env ''g'' sample_cog = (sample_cog, [Response AlreadyJoined])"
    by (metis prod.collapse)
  from add_participant_idempotent [of sample_cog "''g''" sample_giveaway ?e8
      "?e8\<lparr>save_ok := False\<rparr>"] h4 h5 h6
  have b: "fst (add_participant (?e8\<lparr>save_ok := False\<rparr>) ''g''
            (fst (add_participant ?e8 ''g'' sample_cog)))
        = fst (add_participant ?e8 ''g'' sample_cog)
      \<and> no_duplicate_participants (fst (add_participant ?e8 ''g'' sample_cog))"
    by blast
  from h1 h2 a h4 b h6 h7 show ?thesis by simp
qed

subsection \<open>The prize of a winner\<close>

lemma random_choice_mem: "random_choice r xs = Inr x \<Longrightarrow> x \<in> set xs"
  by (auto simp: random_choice_def split: if_splits)

lemma select_prize_cases:
  assumes "select_prize r g pool = Inr p"
  shows "(get_assigned_prizes g \<noteq> [] \<longrightarrow> p \<in> snd ` set (get_assigned_prizes g))
       \<and> (get_assigned_prizes g = [] \<and> pool \<noteq> [] \<longrightarrow> p \<in> snd ` set pool)
       \<and> (get_assigned_prizes g = [] \<and> pool = [] \<longrightarrow> p = ''Mystery Prize'')"
  using assms by (auto simp: select_prize_def dest!: random_choice_mem split: if_splits)

lemma select_prize_assigned:
  "get_assigned_prizes g \<noteq> [] \<Longrightarrow> select_prize r g pool = select_prize r g pool'"
  by (simp add: select_prize_def)

lemma send_and_edit_winner:
  "ChannelSend c' (Winner w p gif) \<in> set (fst (send_and_edit e c m msg sent edited))
     \<Longrightarrow> sent = Winner w p gif"
  by (auto simp: send_and_edit_def split: if_splits option.splits)

lemma announce_winner:
  assumes "ChannelSend c' (Winner w p gif) \<in> set (fst (announce e c m msg g pool known))"
  shows "select_prize (rand_prize e) g pool = Inr p \<and> w \<in> set (get_participants g)"
  using assms
  by (auto simp: announce_def dest!: send_and_edit_winner random_choice_mem
           split: if_splits sum.splits)

lemma deliver_winner:
  assumes "ChannelSend c' (Winner w p gif) \<in> set (fst (deliver e g pool known))"
  shows "select_prize (rand_prize e) g pool = Inr p \<and> w \<in> set (get_participants g)"
  using assms
  by (auto simp: deliver_def dest: announce_winner
           split: if_splits sum.splits option.splits fetch_result.splits)

lemma announce_assigned:
  assumes "get_assigned_prizes g \<noteq> []"
  shows "announce e c m msg g pool known = announce e c m msg g pool' known"
  using select_prize_assigned [OF assms, of "rand_prize e" pool pool']
  by (simp add: announce_def split: sum.splits)

lemma deliver_assigned:
  assumes "get_assigned_prizes g \<noteq> []"
  shows "deliver e g pool known = deliver e g pool' known"
  unfolding deliver_def
  by (simp add: announce_assigned [OF assms, of e _ _ _ pool known pool']
           split: option.splits sum.splits fetch_result.splits)

lemma get_assigned_prizes_ended:
  "get_assigned_prizes (g\<lparr>ended := x\<rparr>) = get_assigned_prizes g"
  by (simp add: get_assigned_prizes_def)

lemma get_participants_ended:
  "get_participants (g\<lparr>ended := x\<rparr>) = get_participants g"
  by (simp add: get_participants_def)

lemma select_prize_ended:
  "select_prize r (g\<lparr>ended := x\<rparr>) pool = select_prize r g pool"
  by (simp add: select_prize_def get_assigned_prizes_ended)

lemma end_giveaway_winner:
  assumes "map_of (giveaways s) gid = Some g"
    and "ChannelSend c (Winner w p gif) \<in> set (snd (end_giveaway e gid s))"
  shows "select_prize (rand_prize e) g (prizes s) = Inr p \<and> w \<in> set (get_participants g)"
proof -
  let ?g = "g\<lparr>ended := Some True\<rparr>"
  from assms have "ChannelSend c (Winner w p gif) \<in> set (fst (deliver e ?g (prizes s) (gifs s)))"
    using save_giveaways_cases [of e "AList.update gid ?g (giveaways s)"]
    by (auto simp: end_giveaway_def Let_def split: if_splits)
  then have "select_prize (rand_prize e) ?g (prizes s) = Inr p \<and> w \<in> set (get_participants ?g)"
    by (rule deliver_winner)
  then show ?thesis by (simp add: select_prize_ended get_participants_ended)
qed

lemma end_giveaway_pool:
  assumes "map_of (giveaways s) gid = Some g" and "get_assigned_prizes g \<noteq> []"
  shows "snd (end_giveaway e gid (s\<lparr>prizes := pool\<rparr>)) = snd (end_giveaway e gid s)"
proof -
  have "get_assigned_prizes (g\<lparr>ended := Some True\<rparr>) \<noteq> []"
    using assms(2) by (simp add: get_assigned_prizes_ended)
  from deliver_assigned [OF this, of e pool "gifs s" "prizes s"] assms(1)
  show ?thesis by (simp add: end_giveaway_def Let_def split: sum.splits)
qed

text \<open>
  Claim C6.  Whenever \<open>end_giveaway\<close> announces a winner with a prize \<open>p\<close>: if the
  giveaway has prizes of its own, \<open>p\<close> is one of their names and the global pool plays
  no part (with any other pool in its place the call has the same effects); if it has
  none, or the key is absent, and the pool is not empty, \<open>p\<close> is one of the pool's names;
  if both are empty, \<open>p\<close> is the fixed name \<open>Mystery Prize\<close>.
\<close>

theorem prize_precedence:
  assumes "map_of (giveaways s) gid = Some g"
    and "ChannelSend c (Winner w p gif) \<in> set (snd (end_giveaway e gid s))"
  shows "(get_assigned_prizes g \<noteq> [] \<longrightarrow>
            p \<in> snd ` set (get_assigned_prizes g)
            \<and> snd (end_giveaway e gid (s\<lparr>prizes := pool\<rparr>)) = snd (end_giveaway e gid s))
       \<and> (get_assigned_prizes g = [] \<and> prizes s \<noteq> [] \<longrightarrow> p \<in> snd ` set (prizes s))
       \<and> (get_assigned_prizes g = [] \<and> prizes s = [] \<longrightarrow> p = ''Mystery Prize'')"
  using select_prize_cases [of "rand_prize e" g "prizes s" p]
    end_giveaway_winner [OF assms] end_giveaway_pool [OF assms(1), of e pool]
  by blast

theorem prize_precedence_witness:
  "map_of (giveaways (sample_cog\<lparr>giveaways :=
       [(''g'', sample_giveaway\<lparr>assigned_prizes := Some [(''9'', ''Car'')]\<rparr>)]\<rparr>)) ''g''
     = Some (sample_giveaway\<lparr>assigned_prizes := Some [(''9'', ''Car'')]\<rparr>)
   \<and> ChannelSend 10 (Winner ''7'' ''Car'' False)
       \<in> set (snd (end_giveaway sample_env ''g'' (sample_cog\<lparr>giveaways :=
            [(''g'', sample_giveaway\<lparr>assigned_prizes := Some [(''9'', ''Car'')]\<rparr>)]\<rparr>)))
   \<and> ''Car'' \<in> snd ` set (get_assigned_prizes
         (sample_giveaway\<lparr>assigned_prizes := Some [(''9'', ''Car'')]\<rparr>))
   \<and> snd (end_giveaway sample_env ''g'' (sample_cog\<lparr>giveaways :=
            [(''g'', sample_giveaway\<lparr>assigned_prizes := Some [(''9'', ''Car'')]\<rparr>)],
            prizes := [(''2'', ''Pen'')]\<rparr>))
       = snd (end_giveaway sample_env ''g'' (sample_cog\<lparr>giveaways :=
            [(''g'', sample_giveaway\<lparr>assigned_prizes := Some [(''9'', ''Car'')]\<rparr>)]\<rparr>))
   \<and> ChannelSend 10 (Winner ''7'' ''Mug'' False)
       \<in> set (snd (end_giveaway sample_env ''g'' sample_cog))
   \<and> ''Mug'' \<in> snd ` set (prizes sample_cog)
   \<and> ChannelSend 10 (Winner ''7'' ''Mystery Prize'' False)
       \<in> set (snd (end_giveaway sample_env ''g'' (sample_cog\<lparr>prizes := []\<rparr>)))"
proof -
  let ?ga = "sample_giveaway\<lparr>assigned_prizes := Some [(''9'', ''Car'')]\<rparr>"
  let ?sa = "sample_cog\<lparr>giveaways := [(''g'', ?ga)]\<rparr>"
  have a1: "map_of (giveaways ?sa) ''g'' = Some ?ga" by simp
  have a2: "ChannelSend 10 (Winner ''7'' ''Car'' False)
       \<in> set (snd (end_giveaway sample_env ''g'' ?sa))"
    by (simp add: end_defs sample_defs py_int_10 py_int_20)
  have a3: "get_assigned_prizes ?ga \<noteq> []"
    by (simp add: get_assigned_prizes_def)
  have b1: "map_of (giveaways sample_cog) ''g'' = Some sample_giveaway"
    by (simp add: sample_defs)
  have b2: "ChannelSend 10 (Winner ''7'' ''Mug'' False)
       \<in> set (snd (end_giveaway sample_env ''g'' sample_cog))"
    by (simp add: end_defs sample_defs py_int_10 py_int_20)
  have b3: "get_assigned_prizes sample_giveaway = [] \<and> prizes sample_cog \<noteq> []"
    by (simp add: get_assigned_prizes_def sample_defs)
  have c1: "map_of (giveaways (sample_cog\<lparr>prizes := []\<rparr>)) ''g'' = Some sample_giveaway"
    by (simp add: sample_defs)
  have c2: "ChannelSend 10 (Winner ''7'' ''Mystery Prize'' False)
       \<in> set (snd (end_giveaway sample_env ''g'' (sample_cog\<lparr>prizes := []\<rparr>)))"
    by (simp add: end_defs sample_defs py_int_10 py_int_20)
  from prize_precedence [OF a1 a2, of "[(''2'', ''Pen'')]"] a3
  have a: "''Car'' \<in> snd ` set (get_assigned_prizes ?ga)
     \<and> snd (end_giveaway sample_env ''g'' (?sa\<lparr>prizes := [(''2'', ''Pen'')]\<rparr>))
         = snd (end_giveaway sample_env ''g'' ?sa)"
    by blast
  from prize_precedence [OF b1 b2] b3
  have b: "''Mug'' \<in> snd ` set (prizes sample_cog)"
    by blast
  from a1 a2 a b2 b c2 show ?thesis by simp
qed

subsection \<open>Start-up recovery\<close>

lemma reload_step_tasks:
  "tasks (reload_step now_ts s item)
     = tasks s @ (if is_ended (snd item) then [] else [startup_task now_ts item])"
  by (simp add: reload_step_def Let_def create_task_def startup_task_def)

lemma reload_step_active_other:
  "fst item \<noteq> gid \<or> is_ended (snd item) \<or> get_end_time (snd item) \<le> now_ts \<Longrightarrow>
   map_of (active_giveaways (reload_step now_ts s item)) gid = map_of (active_giveaways s) gid"
  by (auto simp: reload_step_def Let_def create_task_def AList.update_conv')

lemma reload_step_active_armed:
  "\<not> is_ended (snd item) \<Longrightarrow> get_end_time (snd item) > now_ts \<Longrightarrow>
   map_of (active_giveaways (reload_step now_ts s item)) (fst item) = Some (length (tasks s))"
  by (simp add: reload_step_def Let_def create_task_def AList.update_conv')

lemma reload_fold_tasks:
  "tasks (foldl (reload_step now_ts) s items)
     = tasks s @ map (startup_task now_ts) (filter (\<lambda>item. \<not> is_ended (snd item)) items)"
  by (induction items arbitrary: s) (simp_all add: reload_step_tasks)

lemma reload_fold_active_other:
  "\<forall>item \<in> set items. fst item \<noteq> gid \<or> is_ended (snd item) \<or> get_end_time (snd item) \<le> now_ts \<Longrightarrow>
   map_of (active_giveaways (foldl (reload_step now_ts) s items)) gid
     = map_of (active_giveaways s) gid"
proof (induction items arbitrary: s)
  case Nil
  show ?case by simp
next
  case (Cons item items)
  from Cons.prems have "map_of (active_giveaways (reload_step now_ts s item)) gid
      = map_of (active_giveaways s) gid"
    by (intro reload_step_active_other) simp
  with Cons show ?case by simp
qed

lemma reload_fold_armed:
  assumes "distinct (map fst items)" and "(gid, g) \<in> set items"
    and "\<not> is_ended g" and "get_end_time g > now_ts"
  shows "\<exists>h. map_of (active_giveaways (foldl (reload_step now_ts) s items)) gid = Some h
           \<and> length (tasks s) \<le> h
           \<and> h < length (tasks (foldl (reload_step now_ts) s items))
           \<and> tasks (foldl (reload_step now_ts) s items) ! h
               = \<lparr>task_giveaway = gid, task_delay = Some (get_end_time g - now_ts),
                  status = Pending\<rparr>"
  using assms(1,2)
proof (induction items arbitrary: s)
  case Nil
  then show ?case by simp
next
  case (Cons item items)
  let ?s1 = "reload_step now_ts s item"
  let ?s' = "foldl (reload_step now_ts) ?s1 items"
  have tasks': "tasks ?s' = tasks ?s1
      @ map (startup_task now_ts) (filter (\<lambda>item. \<not> is_ended (snd item)) items)"
    by (rule reload_fold_tasks)
  show ?case
  proof (cases "item = (gid, g)")
    case True
    with Cons.prems have "\<forall>it \<in> set items. fst it \<noteq> gid" by auto
    then have "map_of (active_giveaways ?s') gid = map_of (active_giveaways ?s1) gid"
      by (intro reload_fold_active_other) blast
    also have "\<dots> = Some (length (tasks s))"
      using True assms(3,4) reload_step_active_armed [of item now_ts s] by simp
    finally have h: "map_of (active_giveaways ?s') gid = Some (length (tasks s))" .
    have t1: "tasks ?s1 = tasks s @ [startup_task now_ts item]"
      using True assms(3) by (simp add: reload_step_tasks)
    have "tasks ?s' ! length (tasks s) = startup_task now_ts item"
      by (simp add: tasks' t1 nth_append)
    moreover have "length (tasks s) < length (tasks ?s')"
      by (simp add: tasks' t1)
    ultimately show ?thesis
      using h True assms(4) by (simp add: startup_task_def)
  next
    case False
    with Cons.prems have "distinct (map fst items)" and "(gid, g) \<in> set items" by auto
    from Cons.IH [OF this, of ?s1] obtain h where
      h: "map_of (active_giveaways ?s') gid = Some h" "length (tasks ?s1) \<le> h"
         "h < length (tasks ?s')"
         "tasks ?s' ! h = \<lparr>task_giveaway = gid, task_delay = Some (get_end_time g - now_ts),
                  status = Pending\<rparr>"
      by blast
    have "length (tasks s) \<le> length (tasks ?s1)"
      by (simp add: reload_step_tasks)
    with h show ?thesis by auto
  qed
qed

lemma run_task_marks_ended:
  assumes "h < length (tasks s)" and "status (tasks s ! h) = Pending"
    and "task_giveaway (tasks s ! h) = gid" and "map_of (giveaways s) gid = Some g"
  shows "map_of (giveaways (fst (run_task e h s))) gid = Some (g\<lparr>ended := Some True\<rparr>)"
proof -
  let ?s1 = "s\<lparr>tasks := (tasks s)[h := (tasks s ! h)\<lparr>status := Finished\<rparr>]\<rparr>"
  have "map_of (giveaways ?s1) gid = Some g" using assms(4) by simp
  from end_giveaway_marks_ended [OF this, of e] assms(1,2,3)
  show ?thesis by (simp add: run_task_def)
qed

lemma reload_fold_overdue:
  assumes "(gid, g) \<in> set items" and "\<not> is_ended g" and "get_end_time g \<le> now_ts"
  shows "\<exists>h. length (tasks s) \<le> h
           \<and> h < length (tasks (foldl (reload_step now_ts) s items))
           \<and> tasks (foldl (reload_step now_ts) s items) ! h
               = \<lparr>task_giveaway = gid, task_delay = None, status = Pending\<rparr>"
proof -
  let ?new = "map (startup_task now_ts) (filter (\<lambda>item. \<not> is_ended (snd item)) items)"
  have "startup_task now_ts (gid, g) \<in> set ?new"
    using assms(1,2) by force
  then obtain i where i: "i < length ?new" "?new ! i = startup_task now_ts (gid, g)"
    by (metis in_set_conv_nth)
  have t: "tasks (foldl (reload_step now_ts) s items) = tasks s @ ?new"
    by (rule reload_fold_tasks)
  have "tasks (foldl (reload_step now_ts) s items) ! (length (tasks s) + i)
      = startup_task now_ts (gid, g)"
    using i by (simp add: t nth_append)
  moreover have "length (tasks s) + i < length (tasks (foldl (reload_step now_ts) s items))"
    using i(1) by (simp add: t)
  ultimately show ?thesis
    using assms(3) by (intro exI [of _ "length (tasks s) + i"]) (simp add: startup_task_def)
qed

text \<open>
  Claim C5.  \<open>reload_active_giveaways\<close> runs when the cog is constructed.  It makes
  one task for every stored giveaway that has not ended and none for the others, and
  leaves the giveaways as they are.  For a giveaway whose end lies ahead the task is a
  timer for exactly \<open>end_time - now\<close>, entered in the timer table under the
  giveaway's id.  For one whose end has passed (or is now) the task is the call of
  \<open>end_giveaway\<close> itself, not entered in the table, and when the event loop runs
  it the giveaway is marked ended.  For a giveaway that has ended the table entry is
  untouched and no new task names it.  The stored giveaways are the items of a
  dictionary, so their ids are distinct.
\<close>

theorem startup_recovery:
  assumes "distinct (map fst (giveaways s))" and "(gid, g) \<in> set (giveaways s)"
  shows "tasks (reload_active_giveaways now_ts s)
           = tasks s @ map (startup_task now_ts)
               (filter (\<lambda>item. \<not> is_ended (snd item)) (giveaways s))
    \<and> giveaways (reload_active_giveaways now_ts s) = giveaways s
    \<and> (\<not> is_ended g \<and> get_end_time g > now_ts \<longrightarrow>
         (\<exists>h. map_of (active_giveaways (reload_active_giveaways now_ts s)) gid = Some h
            \<and> length (tasks s) \<le> h
            \<and> h < length (tasks (reload_active_giveaways now_ts s))
            \<and> tasks (reload_active_giveaways now_ts s) ! h
                = \<lparr>task_giveaway = gid, task_delay = Some (get_end_time g - now_ts),
                   status = Pending\<rparr>))
    \<and> (\<not> is_ended g \<and> get_end_time g \<le> now_ts \<longrightarrow>
         map_of (active_giveaways (reload_active_giveaways now_ts s)) gid
           = map_of (active_giveaways s) gid
         \<and> (\<exists>h. length (tasks s) \<le> h
            \<and> h < length (tasks (reload_active_giveaways now_ts s))
            \<and> tasks (reload_active_giveaways now_ts s) ! h
                = \<lparr>task_giveaway = gid, task_delay = None, status = Pending\<rparr>
            \<and> map_of (giveaways (fst (run_task e h (reload_active_giveaways now_ts s)))) gid
                = Some (g\<lparr>ended := Some True\<rparr>)))
    \<and> (is_ended g \<longrightarrow>
         map_of (active_giveaways (reload_active_giveaways now_ts s)) gid
           = map_of (active_giveaways s) gid
         \<and> (\<forall>h. length (tasks s) \<le> h \<and> h < length (tasks (reload_active_giveaways now_ts s))
              \<longrightarrow> task_giveaway (tasks (reload_active_giveaways now_ts s) ! h) \<noteq> gid))"
proof -
  let ?s' = "reload_active_giveaways now_ts s"
  let ?live = "filter (\<lambda>item. \<not> is_ended (snd item)) (giveaways s)"
  have t: "tasks ?s' = tasks s @ map (startup_task now_ts) ?live"
    by (simp add: reload_active_giveaways_def reload_fold_tasks)
  have gs: "giveaways ?s' = giveaways s"
    by (simp add: reload_active_giveaways_def reload_fold_giveaways)
  have m: "map_of (giveaways s) gid = Some g"
    using assms by simp
  have only: "\<And>g'. (gid, g') \<in> set (giveaways s) \<Longrightarrow> g' = g"
    using assms by (meson eq_key_imp_eq_value)
  have armed: "\<not> is_ended g \<and> get_end_time g > now_ts \<longrightarrow>
         (\<exists>h. map_of (active_giveaways ?s') gid = Some h
            \<and> length (tasks s) \<le> h \<and> h < length (tasks ?s')
            \<and> tasks ?s' ! h
                = \<lparr>task_giveaway = gid, task_delay = Some (get_end_time g - now_ts),
                   status = Pending\<rparr>)"
    using reload_fold_armed [OF assms, of now_ts s]
    by (simp add: reload_active_giveaways_def)
  have untouched: "is_ended g \<or> get_end_time g \<le> now_ts \<Longrightarrow>
      map_of (active_giveaways ?s') gid = map_of (active_giveaways s) gid"
    unfolding reload_active_giveaways_def
    by (rule reload_fold_active_other) (use only in force)
  have overdue: "\<not> is_ended g \<and> get_end_time g \<le> now_ts \<longrightarrow>
         (\<exists>h. length (tasks s) \<le> h \<and> h < length (tasks ?s')
            \<and> tasks ?s' ! h = \<lparr>task_giveaway = gid, task_delay = None, status = Pending\<rparr>
            \<and> map_of (giveaways (fst (run_task e h ?s'))) gid = Some (g\<lparr>ended := Some True\<rparr>))"
  proof
    assume a: "\<not> is_ended g \<and> get_end_time g \<le> now_ts"
    with reload_fold_overdue [OF assms(2), of now_ts s] obtain h where
      h: "length (tasks s) \<le> h" "h < length (tasks ?s')"
         "tasks ?s' ! h = \<lparr>task_giveaway = gid, task_delay = None, status = Pending\<rparr>"
      by (auto simp: reload_active_giveaways_def)
    have "map_of (giveaways ?s') gid = Some g" using m gs by simp
    from run_task_marks_ended [OF h(2) _ _ this, of e] h(3)
    have "map_of (giveaways (fst (run_task e h ?s'))) gid = Some (g\<lparr>ended := Some True\<rparr>)"
      by simp
    with h show "\<exists>h. length (tasks s) \<le> h \<and> h < length (tasks ?s')
            \<and> tasks ?s' ! h = \<lparr>task_giveaway = gid, task_delay = None, status = Pending\<rparr>
            \<and> map_of (giveaways (fst (run_task e h ?s'))) gid = Some (g\<lparr>ended := Some True\<rparr>)"
      by blast
  qed
  have none: "is_ended g \<longrightarrow>
         (\<forall>h. length (tasks s) \<le> h \<and> h < length (tasks ?s')
              \<longrightarrow> task_giveaway (tasks ?s' ! h) \<noteq> gid)"
  proof (intro impI allI)
    fix h
    assume e: "is_ended g" and h: "length (tasks s) \<le> h \<and> h < length (tasks ?s')"
    then have "h - length (tasks s) < length (map (startup_task now_ts) ?live)"
      by (auto simp: t)
    then have "map (startup_task now_ts) ?live ! (h - length (tasks s))
        \<in> set (map (startup_task now_ts) ?live)"
      by (rule nth_mem)
    with h have "tasks ?s' ! h \<in> set (map (startup_task now_ts) ?live)"
      by (simp add: t nth_append)
    then obtain item where "item \<in> set (giveaways s)" "\<not> is_ended (snd item)"
        "tasks ?s' ! h = startup_task now_ts item"
      by auto
    with e only [of "snd item"] show "task_giveaway (tasks ?s' ! h) \<noteq> gid"
      by (cases item) (auto simp: startup_task_def)
  qed
  from t gs armed untouched overdue none show ?thesis by blast
qed

theorem startup_recovery_witness:
  "distinct (map fst (giveaways startup_cog))
   \<and> (''soon'', sample_giveaway\<lparr>end_time := Some 2000\<rparr>) \<in> set (giveaways startup_cog)
   \<and> get_end_time (sample_giveaway\<lparr>end_time := Some 2000\<rparr>) > 1500
   \<and> tasks (reload_active_giveaways 1500 startup_cog)
       = [\<lparr>task_giveaway = ''late'', task_delay = None, status = Pending\<rparr>,
          \<lparr>task_giveaway = ''soon'', task_delay = Some 500, status = Pending\<rparr>]
   \<and> (\<exists>h. map_of (active_giveaways (reload_active_giveaways 1500 startup_cog)) ''soon''
            = Some h
          \<and> tasks (reload_active_giveaways 1500 startup_cog) ! h
            = \<lparr>task_giveaway = ''soon'', task_delay = Some (2000 - 1500), status = Pending\<rparr>)
   \<and> (''late'', sample_giveaway\<lparr>end_time := Some 100\<rparr>) \<in> set (giveaways startup_cog)
   \<and> get_end_time (sample_giveaway\<lparr>end_time := Some 100\<rparr>) \<le> 1500
   \<and> (\<exists>h. tasks (reload_active_giveaways 1500 startup_cog) ! h
            = \<lparr>task_giveaway = ''late'', task_delay = None, status = Pending\<rparr>
          \<and> map_of (giveaways
                (fst (run_task sample_env h (reload_active_giveaways 1500 startup_cog)))) ''late''
            = Some (sample_giveaway\<lparr>end_time := Some 100, ended := Some True\<rparr>))
   \<and> (''old'', sample_giveaway\<lparr>ended := Some True\<rparr>) \<in> set (giveaways startup_cog)
   \<and> map_of (active_giveaways (reload_active_giveaways 1500 startup_cog)) ''old'' = None"
proof -
  let ?soon = "sample_giveaway\<lparr>end_time := Some 2000\<rparr>"
  let ?late = "sample_giveaway\<lparr>end_time := Some 100\<rparr>"
  let ?old = "sample_giveaway\<lparr>ended := Some True\<rparr>"
  have d: "distinct (map fst (giveaways startup_cog))"
    by (simp add: startup_cog_def)
  have s1: "(''soon'', ?soon) \<in> set (giveaways startup_cog)"
    by (simp add: startup_cog_def)
  have s2: "\<not> is_ended ?soon \<and> get_end_time ?soon > 1500"
    by (simp add: is_ended_def get_end_time_def sample_giveaway_def)
  have l1: "(''late'', ?late) \<in> set (giveaways startup_cog)"
    by (simp add: startup_cog_def)
  have l2: "\<not> is_ended ?late \<and> get_end_time ?late \<le> 1500"
    by (simp add: is_ended_def get_end_time_def sample_giveaway_def)
  have o1: "(''old'', ?old) \<in> set (giveaways startup_cog)"
    by (simp add: startup_cog_def)
  have o2: "is_ended ?old"
    by (simp add: is_ended_def)
  have o3: "map_of (active_giveaways startup_cog) ''old'' = None"
    by (simp add: startup_cog_def)
  have live: "filter (\<lambda>item. \<not> is_ended (snd item)) (giveaways startup_cog)
      = [(''late'', ?late), (''soon'', ?soon)]"
    by (simp add: startup_cog_def is_ended_def sample_giveaway_def)
  from startup_recovery [OF d s1, of 1500 sample_env] s2
  have a: "tasks (reload_active_giveaways 1500 startup_cog)
           = tasks startup_cog @ map (startup_task 1500)
               (filter (\<lambda>item. \<not> is_ended (snd item)) (giveaways startup_cog))"
    and b: "\<exists>h. map_of (active_giveaways (reload_active_giveaways 1500 startup_cog)) ''soon''
            = Some h
          \<and> tasks (reload_active_giveaways 1500 startup_cog) ! h
            = \<lparr>task_giveaway = ''soon'', task_delay = Some (get_end_time ?soon - 1500),
               status = Pending\<rparr>"
    by blast+
  from startup_recovery [OF d l1, of 1500 sample_env] l2
  have c: "\<exists>h. tasks (reload_active_giveaways 1500 startup_cog) ! h
            = \<lparr>task_giveaway = ''late'', task_delay = None, status = Pending\<rparr>
          \<and> map_of (giveaways
                (fst (run_task sample_env h (reload_active_giveaways 1500 startup_cog)))) ''late''
            = Some (?late\<lparr>ended := Some True\<rparr>)"
    by blast
  from startup_recovery [OF d o1, of 1500 sample_env] o2 o3
  have e: "map_of (active_giveaways (reload_active_giveaways 1500 startup_cog)) ''old'' = None"
    by simp
  have a': "tasks (reload_active_giveaways 1500 startup_cog)
       = [\<lparr>task_giveaway = ''late'', task_delay = None, status = Pending\<rparr>,
          \<lparr>task_giveaway = ''soon'', task_delay = Some 500, status = Pending\<rparr>]"
    unfolding a live
    by (simp add: startup_task_def get_end_time_def sample_giveaway_def startup_cog_def)
  have b': "get_end_time ?soon - 1500 = 2000 - 1500"
    by (simp add: get_end_time_def)
  from d s1 s2 a' b b' l1 l2 c o1 e show ?thesis by simp
qed

subsection \<open>Setting the exact end\<close>

lemma set_exact_time_future:
  assumes "is_admin e" and "map_of (giveaways s) gid = Some g" and "\<not> is_ended g"
    and "parse_date_time date time = Inr end_dt" and "now e < end_dt"
    and "to_timestamp e end_dt = Inr end_ts" and "to_timestamp e (now e) = Inr now_ts"
  shows "set_exact_time e gid date time s =
    (case save_giveaways e (AList.update gid (g\<lparr>end_time := Some end_ts\<rparr>) (giveaways s)) of
       Inl err \<Rightarrow>
         ((cancel_scheduled gid s)
            \<lparr>giveaways := AList.update gid (g\<lparr>end_time := Some end_ts\<rparr>) (giveaways s)\<rparr>,
          set_exact_time_except err)
     | Inr saved \<Rightarrow>
         ((cancel_scheduled gid s)
            \<lparr>giveaways := AList.update gid (g\<lparr>end_time := Some end_ts\<rparr>) (giveaways s),
             tasks := tasks (cancel_scheduled gid s)
               @ [\<lparr>task_giveaway = gid, task_delay = Some (end_ts - now_ts),
                   status = Pending\<rparr>],
             active_giveaways :=
               AList.update gid (length (tasks s)) (active_giveaways s)\<rparr>,
          saved @ time_message_update e (g\<lparr>end_time := Some end_ts\<rparr>) end_ts
          @ [Response TimeChanged]))"
  using assms
  by (simp add: set_exact_time_def Let_def create_task_def cancel_scheduled_fields
      length_cancel_scheduled split: sum.splits)

lemma cancel_scheduled_cancels:
  assumes "map_of (active_giveaways s) gid = Some h" and "h < length (tasks s)"
    and "status (tasks s ! h) = Pending"
  shows "status (tasks (cancel_scheduled gid s) ! h) = Cancelled"
  using assms by (simp add: cancel_scheduled_tasks cancel_task_cancels)

text \<open>
  Claim C7, as the code has it.  For an administrator and a known giveaway: on a
  giveaway that has ended, \<open>set_exact_time\<close> replies that the time of an ended
  giveaway cannot be changed, whatever the date, and changes nothing, so \<open>end_time\<close>
  stays.  On an open giveaway, a date and time that can be read and that do not lie
  after now are refused with the reply that the end must lie in the future, and nothing
  changes.  Otherwise, with the requested end and now converted to timestamps, the
  pending timer of the giveaway is cancelled and \<open>end_time\<close> becomes the requested
  timestamp, and the save is called on the changed collection.  When the save returns,
  whether the file was written or not, a new timer for the requested timestamp minus
  now is created and entered in the timer table, and the user is told of the new time.
  When the save raises, because the data directory cannot be made, no timer is created:
  the timer table keeps the handle of the cancelled timer, and the user gets the reply
  of a failure.
\<close>

theorem set_exact_time_spec:
  assumes "is_admin e" and "map_of (giveaways s) gid = Some g"
  shows "(is_ended g \<longrightarrow> set_exact_time e gid date time s = (s, [Response CannotChangeEnded]))
    \<and> (\<not> is_ended g \<and> parse_date_time date time = Inr end_dt \<and> end_dt \<le> now e \<longrightarrow>
         set_exact_time e gid date time s = (s, [Response MustBeFuture]))
    \<and> (\<not> is_ended g \<and> parse_date_time date time = Inr end_dt \<and> now e < end_dt
         \<and> to_timestamp e end_dt = Inr end_ts \<and> to_timestamp e (now e) = Inr now_ts \<longrightarrow>
         giveaways (fst (set_exact_time e gid date time s))
           = AList.update gid (g\<lparr>end_time := Some end_ts\<rparr>) (giveaways s)
         \<and> (\<forall>h. map_of (active_giveaways s) gid = Some h \<and> h < length (tasks s)
                \<and> status (tasks s ! h) = Pending \<longrightarrow>
                status (tasks (fst (set_exact_time e gid date time s)) ! h) = Cancelled)
         \<and> (data_dir_ok e \<longrightarrow>
              tasks (fst (set_exact_time e gid date time s))
                = tasks (cancel_scheduled gid s)
                  @ [\<lparr>task_giveaway = gid, task_delay = Some (end_ts - now_ts),
                      status = Pending\<rparr>]
              \<and> map_of (active_giveaways (fst (set_exact_time e gid date time s))) gid
                = Some (length (tasks s))
              \<and> snd (set_exact_time e gid date time s)
                = (if save_ok e
                   then [Saved (AList.update gid (g\<lparr>end_time := Some end_ts\<rparr>) (giveaways s))]
                   else [SaveFailed])
                  @ time_message_update e (g\<lparr>end_time := Some end_ts\<rparr>) end_ts
                  @ [Response TimeChanged])
         \<and> (\<not> data_dir_ok e \<longrightarrow>
              tasks (fst (set_exact_time e gid date time s)) = tasks (cancel_scheduled gid s)
              \<and> active_giveaways (fst (set_exact_time e gid date time s)) = active_giveaways s
              \<and> snd (set_exact_time e gid date time s)
                = [Log (ErrorSettingTime OSError), Response (SetTimeError OSError)]))"
proof -
  let ?gs = "AList.update gid (g\<lparr>end_time := Some end_ts\<rparr>) (giveaways s)"
  have a: "is_ended g \<longrightarrow> set_exact_time e gid date time s = (s, [Response CannotChangeEnded])"
    using assms by (simp add: set_exact_time_def)
  have b: "\<not> is_ended g \<and> parse_date_time date time = Inr end_dt \<and> end_dt \<le> now e \<longrightarrow>
         set_exact_time e gid date time s = (s, [Response MustBeFuture])"
    using assms by (simp add: set_exact_time_def)
  have c: "giveaways (fst (set_exact_time e gid date time s)) = ?gs
         \<and> (\<forall>h. map_of (active_giveaways s) gid = Some h \<and> h < length (tasks s)
                \<and> status (tasks s ! h) = Pending \<longrightarrow>
                status (tasks (fst (set_exact_time e gid date time s)) ! h) = Cancelled)
         \<and> (data_dir_ok e \<longrightarrow>
              tasks (fst (set_exact_time e gid date time s))
                = tasks (cancel_scheduled gid s)
                  @ [\<lparr>task_giveaway = gid, task_delay = Some (end_ts - now_ts),
                      status = Pending\<rparr>]
              \<and> map_of (active_giveaways (fst (set_exact_time e gid date time s))) gid
                = Some (length (tasks s))
              \<and> snd (set_exact_time e gid date time s)
                = (if save_ok e then [Saved ?gs] else [SaveFailed])
                  @ time_message_update e (g\<lparr>end_time := Some end_ts\<rparr>) end_ts
                  @ [Response TimeChanged])
         \<and> (\<not> data_dir_ok e \<longrightarrow>
              tasks (fst (set_exact_time e gid date time s)) = tasks (cancel_scheduled gid s)
              \<and> active_giveaways (fst (set_exact_time e gid date time s)) = active_giveaways s
              \<and> snd (set_exact_time e gid date time s)
                = [Log (ErrorSettingTime OSError), Response (SetTimeError OSError)])"
    if p: "\<not> is_ended g \<and> parse_date_time date time = Inr end_dt \<and> now e < end_dt
         \<and> to_timestamp e end_dt = Inr end_ts \<and> to_timestamp e (now e) = Inr now_ts"
  proof -
    note eq = set_exact_time_future [OF assms, of date time end_dt end_ts now_ts,
        OF p [THEN conjunct1] p [THEN conjunct2, THEN conjunct1]
           p [THEN conjunct2, THEN conjunct2, THEN conjunct1]
           p [THEN conjunct2, THEN conjunct2, THEN conjunct2, THEN conjunct1]
           p [THEN conjunct2, THEN conjunct2, THEN conjunct2, THEN conjunct2]]
    have old: "\<And>h. map_of (active_giveaways s) gid = Some h \<and> h < length (tasks s)
          \<and> status (tasks s ! h) = Pending
        \<Longrightarrow> status (tasks (cancel_scheduled gid s) ! h) = Cancelled
            \<and> h < length (tasks (cancel_scheduled gid s))"
      by (simp add: cancel_scheduled_cancels length_cancel_scheduled)
    from save_giveaways_cases [of e ?gs] show ?thesis
    proof (elim disjE conjE)
      assume sv: "save_giveaways e ?gs = Inl OSError" and dir: "\<not> data_dir_ok e"
      show ?thesis
        unfolding eq sv using dir old
        by (simp add: set_exact_time_except_def cancel_scheduled_fields)
    next
      assume sv: "save_giveaways e ?gs = Inr [Saved ?gs]" and dir: "data_dir_ok e"
        and ok: "save_ok e"
      show ?thesis
        unfolding eq sv using dir ok old
        by (simp add: AList.update_conv' nth_append)
    next
      assume sv: "save_giveaways e ?gs = Inr [SaveFailed]" and dir: "data_dir_ok e"
        and ok: "\<not> save_ok e"
      show ?thesis
        unfolding eq sv using dir ok old
        by (simp add: AList.update_conv' nth_append)
    qed
  qed
  from a b c show ?thesis by blast
qed

lemma parse_future: "parse_date_time ''1.3.2024'' ''10:30'' = Inr 63844885800000000"
  by code_simp

lemma parse_past: "parse_date_time ''1.2.2024'' ''10:30'' = Inr 63842380200000000"
  by code_simp

text \<open>
  The claim as stated fails: in the sample world without a data directory that can be
  made, a request for an end in the future cancels the timer of the giveaway and
  changes \<open>end_time\<close> in memory, and then the save raises.  No new timer is
  created, the timer table still names the cancelled timer, and the reply is the one of
  a failure.
\<close>

theorem set_exact_time_unarmed:
  "is_admin (sample_env\<lparr>data_dir_ok := False\<rparr>)
   \<and> map_of (giveaways sample_cog) ''g'' = Some sample_giveaway
   \<and> \<not> is_ended sample_giveaway
   \<and> parse_date_time ''1.3.2024'' ''10:30'' = Inr 63844885800000000
   \<and> now (sample_env\<lparr>data_dir_ok := False\<rparr>) < 63844885800000000
   \<and> set_exact_time (sample_env\<lparr>data_dir_ok := False\<rparr>) ''g'' ''1.3.2024'' ''10:30'' sample_cog
       = (sample_cog
            \<lparr>giveaways := [(''g'', sample_giveaway\<lparr>end_time := Some 1709289000\<rparr>)],
             tasks := [\<lparr>task_giveaway = ''g'', task_delay = Some 60, status = Cancelled\<rparr>]\<rparr>,
          [Log (ErrorSettingTime OSError), Response (SetTimeError OSError)])"
  by (simp add: set_exact_time_def parse_future set_exact_time_except_def save_giveaways_def
      ensure_data_directory_def cancel_scheduled_def cancel_task_def is_ended_def Let_def
      sample_defs)

theorem set_exact_time_spec_witness:
  "is_admin sample_env
   \<and> map_of (giveaways sample_cog) ''g'' = Some sample_giveaway
   \<and> set_exact_time sample_env ''g'' ''1.3.2024'' ''10:30''
         (sample_cog\<lparr>giveaways := [(''g'', sample_giveaway\<lparr>ended := Some True\<rparr>)]\<rparr>)
       = (sample_cog\<lparr>giveaways := [(''g'', sample_giveaway\<lparr>ended := Some True\<rparr>)]\<rparr>,
          [Response CannotChangeEnded])
   \<and> parse_date_time ''1.2.2024'' ''10:30'' = Inr 63842380200000000
   \<and> set_exact_time sample_env ''g'' ''1.2.2024'' ''10:30'' sample_cog
       = (sample_cog, [Response MustBeFuture])
   \<and> parse_date_time ''1.3.2024'' ''10:30'' = Inr 63844885800000000
   \<and> data_dir_ok sample_env
   \<and> giveaways (fst (set_exact_time sample_env ''g'' ''1.3.2024'' ''10:30'' sample_cog))
       = [(''g'', sample_giveaway\<lparr>end_time := Some 1709289000\<rparr>)]
   \<and> tasks (fst (set_exact_time sample_env ''g'' ''1.3.2024'' ''10:30'' sample_cog))
       = [\<lparr>task_giveaway = ''g'', task_delay = Some 60, status = Cancelled\<rparr>,
          \<lparr>task_giveaway = ''g'', task_delay = Some 37860, status = Pending\<rparr>]
   \<and> map_of (active_giveaways
         (fst (set_exact_time sample_env ''g'' ''1.3.2024'' ''10:30'' sample_cog))) ''g'' = Some 1
   \<and> snd (set_exact_time sample_env ''g'' ''1.3.2024'' ''10:30'' sample_cog)
       = [Saved [(''g'', sample_giveaway\<lparr>end_time := Some 1709289000\<rparr>)],
          MessageEdit 10 20 (NewEnd 1709289000),
          Response TimeChanged]
   \<and> \<not> data_dir_ok (sample_env\<lparr>data_dir_ok := False\<rparr>)
   \<and> tasks (fst (set_exact_time (sample_env\<lparr>data_dir_ok := False\<rparr>) ''g'' ''1.3.2024''
         ''10:30'' sample_cog))
       = [\<lparr>task_giveaway = ''g'', task_delay = Some 60, status = Cancelled\<rparr>]
   \<and> active_giveaways (fst (set_exact_time (sample_env\<lparr>data_dir_ok := False\<rparr>) ''g''
         ''1.3.2024'' ''10:30'' sample_cog))
       = [(''g'', 0)]
   \<and> snd (set_exact_time (sample_env\<lparr>data_dir_ok := False\<rparr>) ''g'' ''1.3.2024'' ''10:30''
         sample_cog)
       = [Log (ErrorSettingTime OSError), Response (SetTimeError OSError)]"
proof -
  let ?ge = "sample_giveaway\<lparr>ended := Some True\<rparr>"
  let ?se = "sample_cog\<lparr>giveaways := [(''g'', ?ge)]\<rparr>"
  let ?ed = "sample_env\<lparr>data_dir_ok := False\<rparr>"
  have adm: "is_admin sample_env" by (simp add: sample_defs)
  have adm': "is_admin ?ed" by (simp add: sample_defs)
  have m: "map_of (giveaways sample_cog) ''g'' = Some sample_giveaway"
    by (simp add: sample_defs)
  have me: "map_of (giveaways ?se) ''g'' = Some ?ge" by simp
  have e1: "is_ended ?ge" by (simp add: is_ended_def)
  have open_g: "\<not> is_ended sample_giveaway" by (simp add: is_ended_def sample_defs)
  have past: "(63842380200000000::int) \<le> now sample_env" by (simp add: sample_defs)
  have future: "now sample_env < (63844885800000000::int)" by (simp add: sample_defs)
  have future': "now ?ed < (63844885800000000::int)" by (simp add: sample_defs)
  have ts1: "to_timestamp sample_env 63844885800000000 = Inr 1709289000"
    by (simp add: sample_defs)
  have ts2: "to_timestamp sample_env (now sample_env) = Inr 1709251140"
    by (simp add: sample_defs)
  have ts1': "to_timestamp ?ed 63844885800000000 = Inr 1709289000"
    by (simp add: sample_defs)
  have ts2': "to_timestamp ?ed (now ?ed) = Inr 1709251140"
    by (simp add: sample_defs)
  have dir: "data_dir_ok sample_env" "save_ok sample_env" by (simp_all add: sample_defs)
  have dir': "\<not> data_dir_ok ?ed" by simp
  from set_exact_time_spec [OF adm me, of "''1.3.2024''" "''10:30''"] e1
  have a: "set_exact_time sample_env ''g'' ''1.3.2024'' ''10:30'' ?se
      = (?se, [Response CannotChangeEnded])"
    by blast
  from set_exact_time_spec [OF adm m, of "''1.2.2024''" "''10:30''" 63842380200000000]
    open_g parse_past past
  have b: "set_exact_time sample_env ''g'' ''1.2.2024'' ''10:30'' sample_cog
       = (sample_cog, [Response MustBeFuture])"
    by blast
  from set_exact_time_spec [OF adm m, of "''1.3.2024''" "''10:30''" 63844885800000000
      1709289000 1709251140] open_g parse_future future ts1 ts2 dir
  have c: "giveaways (fst (set_exact_time sample_env ''g'' ''1.3.2024'' ''10:30'' sample_cog))
           = AList.update ''g'' (sample_giveaway\<lparr>end_time := Some 1709289000\<rparr>)
               (giveaways sample_cog)
         \<and> tasks (fst (set_exact_time sample_env ''g'' ''1.3.2024'' ''10:30'' sample_cog))
           = tasks (cancel_scheduled ''g'' sample_cog)
             @ [\<lparr>task_giveaway = ''g'', task_delay = Some (1709289000 - 1709251140),
                 status = Pending\<rparr>]
         \<and> map_of (active_giveaways
               (fst (set_exact_time sample_env ''g'' ''1.3.2024'' ''10:30'' sample_cog))) ''g''
           = Some (length (tasks sample_cog))
         \<and> snd (set_exact_time sample_env ''g'' ''1.3.2024'' ''10:30'' sample_cog)
           = [Saved (AList.update ''g'' (sample_giveaway\<lparr>end_time := Some 1709289000\<rparr>)
                  (giveaways sample_cog))]
             @ time_message_update sample_env
                 (sample_giveaway\<lparr>end_time := Some 1709289000\<rparr>) 1709289000
             @ [Response TimeChanged]"
    by simp
  from set_exact_time_spec [OF adm' m, of "''1.3.2024''" "''10:30''" 63844885800000000
      1709289000 1709251140] open_g parse_future future' ts1' ts2' dir'
  have d: "tasks (fst (set_exact_time ?ed ''g'' ''1.3.2024'' ''10:30'' sample_cog))
           = tasks (cancel_scheduled ''g'' sample_cog)
         \<and> active_giveaways (fst (set_exact_time ?ed ''g'' ''1.3.2024'' ''10:30'' sample_cog))
           = active_giveaways sample_cog
         \<and> snd (set_exact_time ?ed ''g'' ''1.3.2024'' ''10:30'' sample_cog)
           = [Log (ErrorSettingTime OSError), Response (SetTimeError OSError)]"
    by simp
  have c1: "AList.update ''g'' (sample_giveaway\<lparr>end_time := Some 1709289000\<rparr>)
               (giveaways sample_cog)
      = [(''g'', sample_giveaway\<lparr>end_time := Some 1709289000\<rparr>)]"
    by (simp add: sample_defs)
  have c2: "tasks (cancel_scheduled ''g'' sample_cog)
      = [\<lparr>task_giveaway = ''g'', task_delay = Some 60, status = Cancelled\<rparr>]"
    by (simp add: cancel_scheduled_def cancel_task_def sample_defs)
  have c3: "length (tasks sample_cog) = 1" by (simp add: sample_defs)
  have c4: "time_message_update sample_env
        (sample_giveaway\<lparr>end_time := Some 1709289000\<rparr>) 1709289000
      = [MessageEdit 10 20 (NewEnd 1709289000)]"
    by (simp add: time_message_update_def sample_defs py_int_10 py_int_20)
  have c5: "active_giveaways sample_cog = [(''g'', 0)]" by (simp add: sample_defs)
  from adm m a parse_past b parse_future c d dir(1) show ?thesis
    by (simp add: c1 c2 c3 c4 c5)
qed

subsection \<open>Resolving once\<close>

lemma winner_selections_Nil [simp]: "winner_selections [] = 0"
  by (simp add: winner_selections_def)

lemma winner_selections_Cons [simp]:
  "winner_selections (x # xs) = (if is_winner_selection x then 1 else 0) + winner_selections xs"
  by (simp add: winner_selections_def)

lemma winner_selections_append [simp]:
  "winner_selections (xs @ ys) = winner_selections xs + winner_selections ys"
  by (simp add: winner_selections_def)

lemma winner_selections_save:
  "save_giveaways e gs = Inr saved \<Longrightarrow> winner_selections saved = 0"
  using save_giveaways_cases [of e gs] by auto

lemma send_and_edit_once: "winner_selections (fst (send_and_edit e c m msg sent edited)) \<le> Suc 0"
  by (simp add: send_and_edit_def split: option.splits)

lemma announce_once: "winner_selections (fst (announce e c m msg g pool known)) \<le> Suc 0"
  by (simp add: announce_def send_and_edit_once split: sum.splits)

lemma deliver_once: "winner_selections (fst (deliver e g pool known)) \<le> Suc 0"
  by (simp add: deliver_def announce_once
           split: option.splits sum.splits fetch_result.splits)

lemma end_giveaway_once: "winner_selections (snd (end_giveaway e gid s)) \<le> Suc 0"
  by (simp add: end_giveaway_def Let_def deliver_once winner_selections_save
        split: option.splits sum.splits)

lemma end_giveaway_ended_again:
  assumes "map_of (giveaways s) gid = Some g" and "is_ended g"
  shows "giveaways (fst (end_giveaway e gid s)) = giveaways s"
proof -
  have "g\<lparr>ended := Some True\<rparr> = g"
    using assms(2) by (simp add: is_ended_def)
  with assms(1) show ?thesis
    by (simp add: end_giveaway_giveaways AList.update_triv)
qed

lemma end_giveaway_command_ended:
  assumes "is_admin e" and "map_of (giveaways s) gid = Some g" and "is_ended g"
  shows "end_giveaway_command e gid s = (s, [Response AlreadyEnded])"
  using assms by (simp add: end_giveaway_command_def)

lemma end_giveaway_command_once:
  "winner_selections (snd (end_giveaway_command e gid s)) \<le> Suc 0"
  using end_giveaway_once [of e gid "cancel_scheduled gid s"]
  by (simp add: end_giveaway_command_def Let_def split: option.splits)

lemma end_giveaway_command_silent:
  assumes "map_of (giveaways s) gid = Some g" and "is_ended g"
  shows "winner_selections (snd (end_giveaway_command e gid s)) = 0"
  using assms
  by (simp add: end_giveaway_command_def)

lemma end_giveaway_command_cases:
  "giveaways (fst (end_giveaway_command e gid s)) = giveaways s
     \<and> winner_selections (snd (end_giveaway_command e gid s)) = 0
   \<or> (\<exists>g. map_of (giveaways (fst (end_giveaway_command e gid s))) gid = Some g \<and> is_ended g)"
proof (cases "is_admin e")
  case False
  then show ?thesis by (simp add: end_giveaway_command_def)
next
  case True
  show ?thesis
  proof (cases "map_of (giveaways s) gid")
    case None
    with True show ?thesis by (simp add: end_giveaway_command_def)
  next
    case (Some g)
    show ?thesis
    proof (cases "is_ended g")
      case ended: True
      with True Some show ?thesis by (simp add: end_giveaway_command_def)
    next
      case False
      show ?thesis
      proof (cases "reply_ok e")
        case replied: True
        have "map_of (giveaways (cancel_scheduled gid s)) gid = Some g"
          using Some by (simp add: cancel_scheduled_fields)
        from end_giveaway_marks_ended [OF this, of e] True Some False replied
        have "map_of (giveaways (fst (end_giveaway_command e gid s))) gid
            = Some (g\<lparr>ended := Some True\<rparr>)"
          by (simp add: end_giveaway_command_def Let_def)
        then show ?thesis by (simp add: is_ended_def)
      next
        case False
        with True Some \<open>\<not> is_ended g\<close> show ?thesis
          by (simp add: end_giveaway_command_def Let_def cancel_scheduled_fields)
      qed
    qed
  qed
qed

lemma end_giveaway_command_twice:
  "winner_selections (snd (end_giveaway_command e gid s))
     + winner_selections (snd (end_giveaway_command e' gid (fst (end_giveaway_command e gid s))))
   \<le> 1"
  using end_giveaway_command_cases [of e gid s]
proof
  assume "giveaways (fst (end_giveaway_command e gid s)) = giveaways s
     \<and> winner_selections (snd (end_giveaway_command e gid s)) = 0"
  then show ?thesis
    using end_giveaway_command_once [of e' gid "fst (end_giveaway_command e gid s)"] by simp
next
  assume "\<exists>g. map_of (giveaways (fst (end_giveaway_command e gid s))) gid = Some g \<and> is_ended g"
  then obtain g where "map_of (giveaways (fst (end_giveaway_command e gid s))) gid = Some g"
    and "is_ended g" by blast
  then have "winner_selections
      (snd (end_giveaway_command e' gid (fst (end_giveaway_command e gid s)))) = 0"
    by (rule end_giveaway_command_silent)
  then show ?thesis using end_giveaway_command_once [of e gid s] by simp
qed

lemma cancelled_timer_idle:
  assumes "is_admin e" and "map_of (giveaways s) gid = Some g" and "\<not> is_ended g"
    and "map_of (active_giveaways s) gid = Some h"
  shows "run_task e' h (fst (end_giveaway_command e gid s))
           = (fst (end_giveaway_command e gid s), [])"
proof -
  have t: "tasks (fst (end_giveaway_command e gid s)) = cancel_task h (tasks s)"
    using assms
    by (simp add: end_giveaway_command_def Let_def cancel_scheduled_tasks end_giveaway_tasks)
  have "h < length (tasks s) \<Longrightarrow> status (cancel_task h (tasks s) ! h) \<noteq> Pending"
    by (simp add: cancel_task_def)
  then show ?thesis
    by (auto simp: run_task_def t length_cancel_task)
qed

text \<open>
  Claim C1, as the code has it.  \<open>end_giveaway\<close> has no test of \<open>ended\<close>: called on
  a giveaway that has ended it leaves the stored giveaways as they are but runs the
  resolution again.  Resolving at most once is arranged around it.  The command
  \<open>end_giveaway_command\<close> does nothing on an ended giveaway but reply that it has
  ended; two calls of the command announce at most one winner between them; and the
  timer that the command cancelled does nothing when the event loop comes to it.
\<close>

theorem resolution_at_most_once:
  "(map_of (giveaways s) gid = Some g \<and> is_ended g \<longrightarrow>
      giveaways (fst (end_giveaway e gid s)) = giveaways s
      \<and> (is_admin e \<longrightarrow> end_giveaway_command e gid s = (s, [Response AlreadyEnded])))
   \<and> winner_selections (snd (end_giveaway_command e gid s))
       + winner_selections
           (snd (end_giveaway_command e' gid (fst (end_giveaway_command e gid s))))
     \<le> 1
   \<and> (is_admin e \<and> map_of (giveaways s) gid = Some g \<and> \<not> is_ended g
        \<and> map_of (active_giveaways s) gid = Some h \<longrightarrow>
      run_task e' h (fst (end_giveaway_command e gid s))
        = (fst (end_giveaway_command e gid s), []))"
  using end_giveaway_ended_again [of s gid g e] end_giveaway_command_ended [of e s gid g]
    end_giveaway_command_twice [of e gid s e'] cancelled_timer_idle [of e s gid g h e']
  by blast

text \<open>
  The claim as stated fails: in the sample world a second call of \<open>end_giveaway\<close>,
  on the giveaway that the first call has marked ended, announces a winner again.
\<close>

theorem end_giveaway_not_idempotent:
  "map_of (giveaways (fst (end_giveaway sample_env ''g'' sample_cog))) ''g''
     = Some (sample_giveaway\<lparr>ended := Some True\<rparr>)
   \<and> is_ended (sample_giveaway\<lparr>ended := Some True\<rparr>)
   \<and> snd (end_giveaway sample_env ''g'' sample_cog)
     = [Saved [(''g'', sample_giveaway\<lparr>ended := Some True\<rparr>)],
        ChannelSend 10 (Winner ''7'' ''Mug'' False),
        MessageEdit 10 20 (Winner ''7'' ''Mug'' False)]
   \<and> snd (end_giveaway sample_env ''g'' (fst (end_giveaway sample_env ''g'' sample_cog)))
     = [Saved [(''g'', sample_giveaway\<lparr>ended := Some True\<rparr>)],
        ChannelSend 10 (Winner ''7'' ''Mug'' False),
        MessageEdit 10 20 (Winner ''7'' ''Mug'' False)]
   \<and> winner_selections (snd (end_giveaway sample_env ''g'' sample_cog))
       + winner_selections
           (snd (end_giveaway sample_env ''g'' (fst (end_giveaway sample_env ''g'' sample_cog))))
     = 2"
  by (simp add: end_defs sample_defs py_int_10 py_int_20)

theorem resolution_at_most_once_witness:
  "map_of (giveaways (fst (end_giveaway sample_env ''g'' sample_cog))) ''g''
     = Some (sample_giveaway\<lparr>ended := Some True\<rparr>)
   \<and> is_ended (sample_giveaway\<lparr>ended := Some True\<rparr>)
   \<and> is_admin sample_env
   \<and> end_giveaway_command sample_env ''g'' (fst (end_giveaway sample_env ''g'' sample_cog))
     = (fst (end_giveaway sample_env ''g'' sample_cog), [Response AlreadyEnded])
   \<and> winner_selections (snd (end_giveaway_command sample_env ''g'' sample_cog)) = 1
   \<and> winner_selections (snd (end_giveaway_command sample_env ''g''
         (fst (end_giveaway_command sample_env ''g'' sample_cog)))) = 0
   \<and> map_of (giveaways sample_cog) ''g'' = Some sample_giveaway
   \<and> \<not> is_ended sample_giveaway
   \<and> map_of (active_giveaways sample_cog) ''g'' = Some 0
   \<and> run_task sample_env 0 (fst (end_giveaway_command sample_env ''g'' sample_cog))
     = (fst (end_giveaway_command sample_env ''g'' sample_cog), [])"
proof -
  let ?s1 = "fst (end_giveaway sample_env ''g'' sample_cog)"
  have a1: "map_of (giveaways ?s1) ''g'' = Some (sample_giveaway\<lparr>ended := Some True\<rparr>)"
    by (simp add: end_defs sample_defs py_int_10 py_int_20)
  have a2: "is_ended (sample_giveaway\<lparr>ended := Some True\<rparr>)"
    by (simp add: is_ended_def)
  have adm: "is_admin sample_env" by (simp add: sample_defs)
  have b1: "map_of (giveaways sample_cog) ''g'' = Some sample_giveaway"
    by (simp add: sample_defs)
  have b2: "\<not> is_ended sample_giveaway" by (simp add: is_ended_def sample_defs)
  have b3: "map_of (active_giveaways sample_cog) ''g'' = Some 0" by (simp add: sample_defs)
  have one: "winner_selections (snd (end_giveaway_command sample_env ''g'' sample_cog)) = 1"
    by (simp add: end_giveaway_command_def cancel_scheduled_def cancel_task_def end_defs
        sample_defs py_int_10 py_int_20)
  from resolution_at_most_once [of ?s1 "''g''" "sample_giveaway\<lparr>ended := Some True\<rparr>"
      sample_env sample_env 0] a1 a2 adm
  have a: "end_giveaway_command sample_env ''g'' ?s1 = (?s1, [Response AlreadyEnded])"
    by blast
  from resolution_at_most_once [of sample_cog "''g''" sample_giveaway sample_env sample_env 0]
    adm b1 b2 b3 one
  have b: "winner_selections (snd (end_giveaway_command sample_env ''g''
         (fst (end_giveaway_command sample_env ''g'' sample_cog)))) = 0
      \<and> run_task sample_env 0 (fst (end_giveaway_command sample_env ''g'' sample_cog))
        = (fst (end_giveaway_command sample_env ''g'' sample_cog), [])"
    by simp
  from a1 a2 adm a one b b1 b2 b3 show ?thesis by simp
qed

subsection \<open>Creating with any duration\<close>

lemma py_str_10: "py_str 10 = ''10''"
  by (simp add: py_str_def nat_digits.simps digit_char_def)

lemma py_str_21: "py_str 21 = ''21''"
  by (simp add: py_str_def nat_digits.simps digit_char_def)

lemma py_str_guild: "py_str 714813888226525226 = ''714813888226525226''"
  by (simp add: py_str_def nat_digits.simps digit_char_def)

lemma py_timedelta_Inr:
  "py_timedelta hours minutes = Inr d \<Longrightarrow>
   d = (hours * 3600 + minutes * 60) * 1000000
   \<and> total_seconds d = real_of_int (hours * 3600 + minutes * 60)"
  by (auto simp: py_timedelta_def total_seconds_def Let_def split: if_splits)

lemma py_timedelta_Inl:
  "py_timedelta hours minutes = Inl err \<Longrightarrow>
   err = OverflowError
   \<and> \<not> (- 999999999 \<le> (hours * 3600 + minutes * 60) div 86400
        \<and> (hours * 3600 + minutes * 60) div 86400 \<le> 999999999)"
  by (auto simp: py_timedelta_def Let_def split: if_splits)

lemma create_giveaway_stores:
  assumes "is_admin e" and "py_timedelta hours minutes = Inr d"
    and "datetime_add (now e) d = Inr end_dt" and "to_timestamp e end_dt = Inr end_ts"
    and "reply_ok e" and "send_ok e"
  shows "create_giveaway e hours minutes ttl descr s =
    (case save_giveaways e
            (AList.update (py_str (interaction_guild_id e) @ ''-'' @ now_repr e)
               \<lparr>title = Some ttl, description = Some descr,
                creator_id = Some (py_str (interaction_user_id e)),
                channel_id = Some (py_str (interaction_channel_id e)),
                message_id = Some (py_str (sent_message_id e)),
                guild_id = Some (py_str (interaction_guild_id e)),
                end_time = Some end_ts, participants = Some [], ended = Some False,
                assigned_prizes = None, prize_list_id = None, celebration_gif = None\<rparr>
               (giveaways s)) of
       Inl err \<Rightarrow>
         (s\<lparr>giveaways :=
              AList.update (py_str (interaction_guild_id e) @ ''-'' @ now_repr e)
                \<lparr>title = Some ttl, description = Some descr,
                 creator_id = Some (py_str (interaction_user_id e)),
                 channel_id = Some (py_str (interaction_channel_id e)),
                 message_id = Some (py_str (sent_message_id e)),
                 guild_id = Some (py_str (interaction_guild_id e)),
                 end_time = Some end_ts, participants = Some [], ended = Some False,
                 assigned_prizes = None, prize_list_id = None, celebration_gif = None\<rparr>
                (giveaways s)\<rparr>,
          [Response Created,
           ChannelSend (interaction_channel_id e)
             (NewGiveaway (py_str (interaction_guild_id e) @ ''-'' @ now_repr e)),
           Raised err])
     | Inr saved \<Rightarrow>
         (s\<lparr>giveaways :=
              AList.update (py_str (interaction_guild_id e) @ ''-'' @ now_repr e)
                \<lparr>title = Some ttl, description = Some descr,
                 creator_id = Some (py_str (interaction_user_id e)),
                 channel_id = Some (py_str (interaction_channel_id e)),
                 message_id = Some (py_str (sent_message_id e)),
                 guild_id = Some (py_str (interaction_guild_id e)),
                 end_time = Some end_ts, participants = Some [], ended = Some False,
                 assigned_prizes = None, prize_list_id = None, celebration_gif = None\<rparr>
                (giveaways s),
            tasks := tasks s @
              [\<lparr>task_giveaway = py_str (interaction_guild_id e) @ ''-'' @ now_repr e,
                task_delay = Some (real_of_int (hours * 3600 + minutes * 60)),
                status = Pending\<rparr>],
            active_giveaways :=
              AList.update (py_str (interaction_guild_id e) @ ''-'' @ now_repr e)
                (length (tasks s)) (active_giveaways s)\<rparr>,
          [Response Created,
           ChannelSend (interaction_channel_id e)
             (NewGiveaway (py_str (interaction_guild_id e) @ ''-'' @ now_repr e))]
          @ saved))"
proof -
  have "total_seconds d = real_of_int (hours * 3600 + minutes * 60)"
    using py_timedelta_Inr [OF assms(2)] by blast
  with assms show ?thesis
    by (simp add: create_giveaway_def Let_def create_task_def split: sum.splits)
qed

lemma create_giveaway_raises:
  assumes "is_admin e"
    and "py_timedelta hours minutes = Inl err
       \<or> (\<exists>d. py_timedelta hours minutes = Inr d
             \<and> (datetime_add (now e) d = Inl err
                \<or> (\<exists>dt. datetime_add (now e) d = Inr dt \<and> to_timestamp e dt = Inl err)))"
  shows "create_giveaway e hours minutes ttl descr s = (s, [Raised err])"
  using assms by (auto simp: create_giveaway_def Let_def)

lemma create_giveaway_unsent:
  assumes "is_admin e" and "py_timedelta hours minutes = Inr d"
    and "datetime_add (now e) d = Inr end_dt" and "to_timestamp e end_dt = Inr end_ts"
  shows "\<not> reply_ok e \<longrightarrow>
           create_giveaway e hours minutes ttl descr s = (s, [Raised HTTPException])"
    and "reply_ok e \<and> \<not> send_ok e \<longrightarrow>
           create_giveaway e hours minutes ttl descr s
             = (s, [Response Created, Raised HTTPException])"
  using assms by (simp_all add: create_giveaway_def Let_def)

text \<open>
  Claim C2, as the code has it.  \<open>create_giveaway\<close> does not look at the sign of the
  duration and has no reply for an invalid one.  For an administrator and every
  \<open>hours\<close> and \<open>minutes\<close>, also with a total of zero or less: when the arithmetic on
  dates succeeds and the reply to the interaction and the message to the channel are
  sent, the record is stored under the new id with \<open>ended\<close> false, no participants
  and the timestamp of now plus the duration as \<open>end_time\<close>, and the save is called.
  When the save returns, whether the file was written or not, a timer for the
  duration's seconds is created and entered in the timer table.  When the save raises,
  because the data directory cannot be made, the record stays stored in memory but no
  timer is created, and the exception leaves the handler.  Nothing is stored, saved or
  armed when the reply or the channel message fails to send, or when the arithmetic on
  dates raises; the duration itself makes it raise only by its size, more than
  999999999 days either way.
\<close>

theorem create_giveaway_any_duration:
  assumes "is_admin e"
  shows "(py_timedelta hours minutes = Inr d \<and> datetime_add (now e) d = Inr end_dt
          \<and> to_timestamp e end_dt = Inr end_ts \<longrightarrow>
          (reply_ok e \<and> send_ok e \<longrightarrow>
             map_of (giveaways (fst (create_giveaway e hours minutes ttl descr s)))
                 (py_str (interaction_guild_id e) @ ''-'' @ now_repr e)
               = Some \<lparr>title = Some ttl, description = Some descr,
                   creator_id = Some (py_str (interaction_user_id e)),
                   channel_id = Some (py_str (interaction_channel_id e)),
                   message_id = Some (py_str (sent_message_id e)),
                   guild_id = Some (py_str (interaction_guild_id e)),
                   end_time = Some end_ts, participants = Some [], ended = Some False,
                   assigned_prizes = None, prize_list_id = None, celebration_gif = None\<rparr>
             \<and> (data_dir_ok e \<longrightarrow>
                  tasks (fst (create_giveaway e hours minutes ttl descr s))
                    = tasks s @
                        [\<lparr>task_giveaway = py_str (interaction_guild_id e) @ ''-'' @ now_repr e,
                          task_delay = Some (real_of_int (hours * 3600 + minutes * 60)),
                          status = Pending\<rparr>]
                  \<and> map_of (active_giveaways (fst (create_giveaway e hours minutes ttl descr s)))
                      (py_str (interaction_guild_id e) @ ''-'' @ now_repr e)
                    = Some (length (tasks s))
                  \<and> snd (create_giveaway e hours minutes ttl descr s)
                    = [Response Created,
                       ChannelSend (interaction_channel_id e)
                         (NewGiveaway (py_str (interaction_guild_id e) @ ''-'' @ now_repr e)),
                       if save_ok e
                       then Saved (giveaways (fst (create_giveaway e hours minutes ttl descr s)))
                       else SaveFailed])
             \<and> (\<not> data_dir_ok e \<longrightarrow>
                  tasks (fst (create_giveaway e hours minutes ttl descr s)) = tasks s
                  \<and> active_giveaways (fst (create_giveaway e hours minutes ttl descr s))
                    = active_giveaways s
                  \<and> snd (create_giveaway e hours minutes ttl descr s)
                    = [Response Created,
                       ChannelSend (interaction_channel_id e)
                         (NewGiveaway (py_str (interaction_guild_id e) @ ''-'' @ now_repr e)),
                       Raised OSError]))
          \<and> (\<not> reply_ok e \<longrightarrow>
               create_giveaway e hours minutes ttl descr s = (s, [Raised HTTPException]))
          \<and> (reply_ok e \<and> \<not> send_ok e \<longrightarrow>
               create_giveaway e hours minutes ttl descr s
                 = (s, [Response Created, Raised HTTPException])))
    \<and> (py_timedelta hours minutes = Inl err
          \<or> (\<exists>d. py_timedelta hours minutes = Inr d
                \<and> (datetime_add (now e) d = Inl err
                   \<or> (\<exists>dt. datetime_add (now e) d = Inr dt \<and> to_timestamp e dt = Inl err)))
        \<longrightarrow> create_giveaway e hours minutes ttl descr s = (s, [Raised err]))
    \<and> (py_timedelta hours minutes = Inl err \<longrightarrow>
          err = OverflowError
          \<and> \<not> (- 999999999 \<le> (hours * 3600 + minutes * 60) div 86400
               \<and> (hours * 3600 + minutes * 60) div 86400 \<le> 999999999))"
proof -
  let ?id = "py_str (interaction_guild_id e) @ ''-'' @ now_repr e"
  let ?g = "\<lparr>title = Some ttl, description = Some descr,
             creator_id = Some (py_str (interaction_user_id e)),
             channel_id = Some (py_str (interaction_channel_id e)),
             message_id = Some (py_str (sent_message_id e)),
             guild_id = Some (py_str (interaction_guild_id e)),
             end_time = Some end_ts, participants = Some [], ended = Some False,
             assigned_prizes = None, prize_list_id = None, celebration_gif = None\<rparr>"
  let ?gs = "AList.update ?id ?g (giveaways s)"
  let ?c = "create_giveaway e hours minutes ttl descr s"
  have a: "(reply_ok e \<and> send_ok e \<longrightarrow>
             map_of (giveaways (fst ?c)) ?id = Some ?g
             \<and> (data_dir_ok e \<longrightarrow>
                  tasks (fst ?c)
                    = tasks s @
                        [\<lparr>task_giveaway = ?id,
                          task_delay = Some (real_of_int (hours * 3600 + minutes * 60)),
                          status = Pending\<rparr>]
                  \<and> map_of (active_giveaways (fst ?c)) ?id = Some (length (tasks s))
                  \<and> snd ?c
                    = [Response Created, ChannelSend (interaction_channel_id e) (NewGiveaway ?id),
                       if save_ok e then Saved (giveaways (fst ?c)) else SaveFailed])
             \<and> (\<not> data_dir_ok e \<longrightarrow>
                  tasks (fst ?c) = tasks s
                  \<and> active_giveaways (fst ?c) = active_giveaways s
                  \<and> snd ?c
                    = [Response Created, ChannelSend (interaction_channel_id e) (NewGiveaway ?id),
                       Raised OSError]))
          \<and> (\<not> reply_ok e \<longrightarrow> ?c = (s, [Raised HTTPException]))
          \<and> (reply_ok e \<and> \<not> send_ok e \<longrightarrow> ?c = (s, [Response Created, Raised HTTPException]))"
    if h: "py_timedelta hours minutes = Inr d \<and> datetime_add (now e) d = Inr end_dt
          \<and> to_timestamp e end_dt = Inr end_ts"
  proof -
    note dates = h [THEN conjunct1] h [THEN conjunct2, THEN conjunct1]
      h [THEN conjunct2, THEN conjunct2]
    have stored: "map_of (giveaways (fst ?c)) ?id = Some ?g
             \<and> (data_dir_ok e \<longrightarrow>
                  tasks (fst ?c)
                    = tasks s @
                        [\<lparr>task_giveaway = ?id,
                          task_delay = Some (real_of_int (hours * 3600 + minutes * 60)),
                          status = Pending\<rparr>]
                  \<and> map_of (active_giveaways (fst ?c)) ?id = Some (length (tasks s))
                  \<and> snd ?c
                    = [Response Created, ChannelSend (interaction_channel_id e) (NewGiveaway ?id),
                       if save_ok e then Saved (giveaways (fst ?c)) else SaveFailed])
             \<and> (\<not> data_dir_ok e \<longrightarrow>
                  tasks (fst ?c) = tasks s
                  \<and> active_giveaways (fst ?c) = active_giveaways s
                  \<and> snd ?c
                    = [Response Created, ChannelSend (interaction_channel_id e) (NewGiveaway ?id),
                       Raised OSError])"
      if sent: "reply_ok e \<and> send_ok e"
    proof -
      note eq = create_giveaway_stores [OF assms dates sent [THEN conjunct1]
          sent [THEN conjunct2], of ttl descr s]
      from save_giveaways_cases [of e ?gs] show ?thesis
      proof (elim disjE conjE)
        assume sv: "save_giveaways e ?gs = Inl OSError" and dir: "\<not> data_dir_ok e"
        show ?thesis unfolding eq sv using dir by (simp add: AList.update_conv')
      next
        assume sv: "save_giveaways e ?gs = Inr [Saved ?gs]" and dir: "data_dir_ok e"
          and ok: "save_ok e"
        show ?thesis unfolding eq sv using dir ok by (simp add: AList.update_conv')
      next
        assume sv: "save_giveaways e ?gs = Inr [SaveFailed]" and dir: "data_dir_ok e"
          and ok: "\<not> save_ok e"
        show ?thesis unfolding eq sv using dir ok by (simp add: AList.update_conv')
      qed
    qed
    from stored create_giveaway_unsent [OF assms dates, of ttl descr s]
    show ?thesis by blast
  qed
  from a create_giveaway_raises [OF assms, of hours minutes err ttl descr s]
    py_timedelta_Inl [of hours minutes err]
  show ?thesis by blast
qed

text \<open>
  The claim as stated fails: in the sample world a giveaway of zero hours and zero
  minutes is created, saved and given a timer of zero seconds.
\<close>

theorem create_giveaway_zero_duration:
  "create_giveaway sample_env 0 0 ''T'' ''D'' sample_cog =
     (sample_cog
        \<lparr>giveaways :=
           [(''g'', sample_giveaway),
            (''714813888226525226-1709251140.0'',
             \<lparr>title = Some ''T'', description = Some ''D'', creator_id = Some ''7'',
              channel_id = Some ''10'', message_id = Some ''21'',
              guild_id = Some ''714813888226525226'', end_time = Some 1709251140,
              participants = Some [], ended = Some False, assigned_prizes = None,
              prize_list_id = None, celebration_gif = None\<rparr>)],
         tasks :=
           [\<lparr>task_giveaway = ''g'', task_delay = Some 60, status = Pending\<rparr>,
            \<lparr>task_giveaway = ''714813888226525226-1709251140.0'', task_delay = Some 0,
             status = Pending\<rparr>],
         active_giveaways := [(''g'', 0), (''714813888226525226-1709251140.0'', 1)]\<rparr>,
      [Response Created,
       ChannelSend 10 (NewGiveaway ''714813888226525226-1709251140.0''),
       Saved
         [(''g'', sample_giveaway),
          (''714813888226525226-1709251140.0'',
           \<lparr>title = Some ''T'', description = Some ''D'', creator_id = Some ''7'',
            channel_id = Some ''10'', message_id = Some ''21'',
            guild_id = Some ''714813888226525226'', end_time = Some 1709251140,
            participants = Some [], ended = Some False, assigned_prizes = None,
            prize_list_id = None, celebration_gif = None\<rparr>)]])"
  by (simp add: create_giveaway_def py_timedelta_def datetime_add_def datetime_end_def
      total_seconds_def create_task_def save_giveaways_def ensure_data_directory_def Let_def
      sample_defs py_str_7 py_str_10 py_str_21 py_str_guild)

theorem create_giveaway_any_duration_witness:
  "is_admin sample_env
   \<and> py_timedelta (- 1) 30 = Inr (- 1800000000)
   \<and> datetime_add (now sample_env) (- 1800000000) = Inr 63844846140000000
   \<and> to_timestamp sample_env 63844846140000000 = Inr 1709249340
   \<and> reply_ok sample_env \<and> send_ok sample_env \<and> data_dir_ok sample_env
   \<and> map_of (giveaways (fst (create_giveaway sample_env (- 1) 30 ''T'' ''D'' sample_cog)))
       ''714813888226525226-1709251140.0''
     = Some \<lparr>title = Some ''T'', description = Some ''D'', creator_id = Some ''7'',
         channel_id = Some ''10'', message_id = Some ''21'',
         guild_id = Some ''714813888226525226'', end_time = Some 1709249340,
         participants = Some [], ended = Some False, assigned_prizes = None,
         prize_list_id = None, celebration_gif = None\<rparr>
   \<and> tasks (fst (create_giveaway sample_env (- 1) 30 ''T'' ''D'' sample_cog))
     = [\<lparr>task_giveaway = ''g'', task_delay = Some 60, status = Pending\<rparr>,
        \<lparr>task_giveaway = ''714813888226525226-1709251140.0'', task_delay = Some (- 1800),
         status = Pending\<rparr>]
   \<and> map_of (active_giveaways (fst (create_giveaway sample_env (- 1) 30 ''T'' ''D'' sample_cog)))
       ''714813888226525226-1709251140.0'' = Some 1
   \<and> create_giveaway (sample_env\<lparr>reply_ok := False\<rparr>) (- 1) 30 ''T'' ''D'' sample_cog
     = (sample_cog, [Raised HTTPException])
   \<and> create_giveaway (sample_env\<lparr>send_ok := False\<rparr>) (- 1) 30 ''T'' ''D'' sample_cog
     = (sample_cog, [Response Created, Raised HTTPException])
   \<and> tasks (fst (create_giveaway (sample_env\<lparr>data_dir_ok := False\<rparr>) (- 1) 30 ''T'' ''D''
        sample_cog))
     = [\<lparr>task_giveaway = ''g'', task_delay = Some 60, status = Pending\<rparr>]
   \<and> snd (create_giveaway (sample_env\<lparr>data_dir_ok := False\<rparr>) (- 1) 30 ''T'' ''D'' sample_cog)
     = [Response Created, ChannelSend 10 (NewGiveaway ''714813888226525226-1709251140.0''),
        Raised OSError]
   \<and> py_timedelta 24000000000 0 = Inl OverflowError
   \<and> create_giveaway sample_env 24000000000 0 ''T'' ''D'' sample_cog
     = (sample_cog, [Raised OverflowError])"
proof -
  let ?er = "sample_env\<lparr>reply_ok := False\<rparr>"
  let ?es = "sample_env\<lparr>send_ok := False\<rparr>"
  let ?ed = "sample_env\<lparr>data_dir_ok := False\<rparr>"
  have adm: "is_admin sample_env" "is_admin ?er" "is_admin ?es" "is_admin ?ed"
    by (simp_all add: sample_defs)
  have h1: "py_timedelta (- 1) 30 = Inr (- 1800000000)"
    by (simp add: py_timedelta_def Let_def)
  have h2: "datetime_add (now sample_env) (- 1800000000) = Inr 63844846140000000"
    "datetime_add (now ?er) (- 1800000000) = Inr 63844846140000000"
    "datetime_add (now ?es) (- 1800000000) = Inr 63844846140000000"
    "datetime_add (now ?ed) (- 1800000000) = Inr 63844846140000000"
    by (simp_all add: datetime_add_def datetime_end_def sample_defs)
  have h3: "to_timestamp sample_env 63844846140000000 = Inr 1709249340"
    "to_timestamp ?er 63844846140000000 = Inr 1709249340"
    "to_timestamp ?es 63844846140000000 = Inr 1709249340"
    "to_timestamp ?ed 63844846140000000 = Inr 1709249340"
    by (simp_all add: sample_defs)
  have h4: "py_timedelta 24000000000 0 = Inl OverflowError"
    by (simp add: py_timedelta_def Let_def)
  have ok: "reply_ok sample_env" "send_ok sample_env" "data_dir_ok sample_env"
    "\<not> reply_ok ?er" "reply_ok ?es" "\<not> send_ok ?es"
    "reply_ok ?ed" "send_ok ?ed" "\<not> data_dir_ok ?ed"
    by (simp_all add: sample_defs)
  have nr: "now_repr sample_env = ''1709251140.0''" "now_repr ?ed = ''1709251140.0''"
    by (simp_all add: sample_defs)
  have strs: "py_str (interaction_user_id sample_env) = ''7''"
    "py_str (interaction_channel_id sample_env) = ''10''"
    "py_str (sent_message_id sample_env) = ''21''"
    "py_str (interaction_guild_id sample_env) = ''714813888226525226''"
    "py_str (interaction_guild_id ?ed) = ''714813888226525226''"
    "interaction_channel_id ?ed = 10"
    by (simp_all add: sample_defs py_str_7 py_str_10 py_str_21 py_str_guild)
  have ts: "tasks sample_cog = [\<lparr>task_giveaway = ''g'', task_delay = Some 60, status = Pending\<rparr>]"
    by (simp add: sample_defs)
  from create_giveaway_any_duration [OF adm(1), of "- 1" 30 "- 1800000000" 63844846140000000
      1709249340 "''T''" "''D''" sample_cog OverflowError] h1 h2(1) h3(1) ok(1,2,3)
  have a: "map_of (giveaways (fst (create_giveaway sample_env (- 1) 30 ''T'' ''D'' sample_cog)))
       ''714813888226525226-1709251140.0''
     = Some \<lparr>title = Some ''T'', description = Some ''D'', creator_id = Some ''7'',
         channel_id = Some ''10'', message_id = Some ''21'',
         guild_id = Some ''714813888226525226'', end_time = Some 1709249340,
         participants = Some [], ended = Some False, assigned_prizes = None,
         prize_list_id = None, celebration_gif = None\<rparr>
   \<and> tasks (fst (create_giveaway sample_env (- 1) 30 ''T'' ''D'' sample_cog))
     = [\<lparr>task_giveaway = ''g'', task_delay = Some 60, status = Pending\<rparr>,
        \<lparr>task_giveaway = ''714813888226525226-1709251140.0'', task_delay = Some (- 1800),
         status = Pending\<rparr>]
   \<and> map_of (active_giveaways (fst (create_giveaway sample_env (- 1) 30 ''T'' ''D'' sample_cog)))
       ''714813888226525226-1709251140.0'' = Some 1"
    by (simp add: nr strs ts)
  from create_giveaway_any_duration [OF adm(2), of "- 1" 30 "- 1800000000" 63844846140000000
      1709249340 "''T''" "''D''" sample_cog OverflowError] h1 h2(2) h3(2) ok(4)
  have r: "create_giveaway ?er (- 1) 30 ''T'' ''D'' sample_cog
     = (sample_cog, [Raised HTTPException])"
    by blast
  from create_giveaway_any_duration [OF adm(3), of "- 1" 30 "- 1800000000" 63844846140000000
      1709249340 "''T''" "''D''" sample_cog OverflowError] h1 h2(3) h3(3) ok(5,6)
  have c: "create_giveaway ?es (- 1) 30 ''T'' ''D'' sample_cog
     = (sample_cog, [Response Created, Raised HTTPException])"
    by blast
  from create_giveaway_any_duration [OF adm(4), of "- 1" 30 "- 1800000000" 63844846140000000
      1709249340 "''T''" "''D''" sample_cog OverflowError] h1 h2(4) h3(4) ok(7,8,9)
  have d: "tasks (fst (create_giveaway ?ed (- 1) 30 ''T'' ''D'' sample_cog))
     = [\<lparr>task_giveaway = ''g'', task_delay = Some 60, status = Pending\<rparr>]
   \<and> snd (create_giveaway ?ed (- 1) 30 ''T'' ''D'' sample_cog)
     = [Response Created, ChannelSend 10 (NewGiveaway ''714813888226525226-1709251140.0''),
        Raised OSError]"
    by (simp add: nr strs ts)
  from create_giveaway_any_duration [OF adm(1), of 24000000000 0 0 0 0 "''T''" "''D''" sample_cog
      OverflowError] h4
  have b: "create_giveaway sample_env 24000000000 0 ''T'' ''D'' sample_cog
     = (sample_cog, [Raised OverflowError])"
    by blast
  from adm(1) h1 h2(1) h3(1) ok(1,2,3) a r c d h4 b show ?thesis by simp
qed

subsection \<open>A save that fails\<close>

lemma visible_append [simp]: "visible (xs @ ys) = visible xs @ visible ys"
  by (simp add: visible_def)

lemma visible_Cons [simp]:
  "visible (x # xs) = (if is_save_record x then visible xs else x # visible xs)"
  by (simp add: visible_def)

lemma visible_Nil [simp]: "visible [] = []"
  by (simp add: visible_def)

lemma save_giveaways_save_ok:
  "save_giveaways (e\<lparr>save_ok := b\<rparr>) gs
     = (if data_dir_ok e then Inr (if b then [Saved gs] else [SaveFailed]) else Inl OSError)"
  "save_giveaways e gs
     = (if data_dir_ok e then Inr (if save_ok e then [Saved gs] else [SaveFailed])
        else Inl OSError)"
  by (simp_all add: save_giveaways_def ensure_data_directory_def)

lemma send_and_edit_save_ok [simp]:
  "send_and_edit (e\<lparr>save_ok := b\<rparr>) c m msg sent edited = send_and_edit e c m msg sent edited"
  by (simp add: send_and_edit_def)

lemma with_gif_save_ok [simp]: "with_gif (e\<lparr>save_ok := b\<rparr>) g known = with_gif e g known"
  by (simp add: with_gif_def cong: option.case_cong sum.case_cong fetch_result.case_cong if_cong)

lemma announce_save_ok [simp]:
  "announce (e\<lparr>save_ok := b\<rparr>) c m msg g pool known = announce e c m msg g pool known"
  by (simp add: announce_def cong: option.case_cong sum.case_cong fetch_result.case_cong if_cong)

lemma deliver_save_ok [simp]:
  "deliver (e\<lparr>save_ok := b\<rparr>) g pool known = deliver e g pool known"
  by (simp add: deliver_def cong: option.case_cong sum.case_cong fetch_result.case_cong if_cong)

lemma cancel_message_update_save_ok [simp]:
  "cancel_message_update (e\<lparr>save_ok := b\<rparr>) g = cancel_message_update e g"
  by (simp add: cancel_message_update_def cong: option.case_cong sum.case_cong fetch_result.case_cong if_cong)

lemma time_message_update_save_ok [simp]:
  "time_message_update (e\<lparr>save_ok := b\<rparr>) g ts = time_message_update e g ts"
  by (simp add: time_message_update_def cong: option.case_cong sum.case_cong fetch_result.case_cong if_cong)

lemma is_allowed_guild_save_ok [simp]:
  "is_allowed_guild (e\<lparr>save_ok := b\<rparr>) s = is_allowed_guild e s"
  by (simp add: is_allowed_guild_def)

lemma end_giveaway_save_ok:
  "fst (end_giveaway (e\<lparr>save_ok := b\<rparr>) gid s) = fst (end_giveaway e gid s)"
  "visible (snd (end_giveaway (e\<lparr>save_ok := b\<rparr>) gid s)) = visible (snd (end_giveaway e gid s))"
  by (simp_all add: end_giveaway_def Let_def save_giveaways_save_ok split: option.splits)

lemma end_giveaway_command_save_ok:
  "fst (end_giveaway_command (e\<lparr>save_ok := b\<rparr>) gid s) = fst (end_giveaway_command e gid s)"
  "visible (snd (end_giveaway_command (e\<lparr>save_ok := b\<rparr>) gid s))
     = visible (snd (end_giveaway_command e gid s))"
  by (simp_all add: end_giveaway_command_def Let_def end_giveaway_save_ok split: option.splits)

lemma add_participant_save_ok:
  "fst (add_participant (e\<lparr>save_ok := b\<rparr>) gid s) = fst (add_participant e gid s)"
  "visible (snd (add_participant (e\<lparr>save_ok := b\<rparr>) gid s))
     = visible (snd (add_participant e gid s))"
  by (simp_all add: add_participant_def Let_def save_giveaways_save_ok split: option.splits)

lemma cancel_giveaway_save_ok:
  "fst (cancel_giveaway (e\<lparr>save_ok := b\<rparr>) gid s) = fst (cancel_giveaway e gid s)"
  "visible (snd (cancel_giveaway (e\<lparr>save_ok := b\<rparr>) gid s))
     = visible (snd (cancel_giveaway e gid s))"
  by (simp_all add: cancel_giveaway_def Let_def save_giveaways_save_ok split: option.splits)

lemma create_giveaway_save_ok:
  "fst (create_giveaway (e\<lparr>save_ok := b\<rparr>) hours minutes ttl descr s)
     = fst (create_giveaway e hours minutes ttl descr s)"
  "visible (snd (create_giveaway (e\<lparr>save_ok := b\<rparr>) hours minutes ttl descr s))
     = visible (snd (create_giveaway e hours minutes ttl descr s))"
  by (simp_all add: create_giveaway_def Let_def save_giveaways_save_ok split: sum.splits)

lemma set_exact_time_save_ok:
  "fst (set_exact_time (e\<lparr>save_ok := b\<rparr>) gid date time s) = fst (set_exact_time e gid date time s)"
  "visible (snd (set_exact_time (e\<lparr>save_ok := b\<rparr>) gid date time s))
     = visible (snd (set_exact_time e gid date time s))"
  by (simp_all add: set_exact_time_def Let_def save_giveaways_save_ok
        split: option.splits sum.splits)

lemma save_raises_unacknowledged:
  assumes "\<not> data_dir_ok e"
  shows "Response Joined \<notin> set (snd (add_participant e gid s))"
    and "Response CancelDone \<notin> set (snd (cancel_giveaway e gid s))"
    and "Response TimeChanged \<notin> set (snd (set_exact_time e gid date time s))"
    and "snd (end_giveaway e gid s) = [Log EndNotFound]
         \<or> snd (end_giveaway e gid s) = [Log (ErrorEnding OSError)]"
    and "tasks (fst (create_giveaway e hours minutes ttl descr s)) = tasks s"
    and "active_giveaways (fst (create_giveaway e hours minutes ttl descr s))
           = active_giveaways s"
proof -
  have sv: "\<And>gs. save_giveaways e gs = Inl OSError"
    using assms by (simp add: save_giveaways_def ensure_data_directory_def)
  show "Response Joined \<notin> set (snd (add_participant e gid s))"
    by (simp add: add_participant_def Let_def sv split: option.splits)
  show "Response CancelDone \<notin> set (snd (cancel_giveaway e gid s))"
    by (simp add: cancel_giveaway_def Let_def sv split: option.splits)
  show "Response TimeChanged \<notin> set (snd (set_exact_time e gid date time s))"
    by (simp add: set_exact_time_def Let_def sv set_exact_time_except_def
          split: option.splits sum.splits)
  show "snd (end_giveaway e gid s) = [Log EndNotFound]
         \<or> snd (end_giveaway e gid s) = [Log (ErrorEnding OSError)]"
    by (simp add: end_giveaway_def Let_def sv split: option.splits)
  show "tasks (fst (create_giveaway e hours minutes ttl descr s)) = tasks s"
    by (simp add: create_giveaway_def Let_def sv split: sum.splits)
  show "active_giveaways (fst (create_giveaway e hours minutes ttl descr s))
           = active_giveaways s"
    by (simp add: create_giveaway_def Let_def sv split: sum.splits)
qed

text \<open>
  Claim C3, as the code has it.  \<open>save_giveaways\<close> fails in two ways.  A failure of
  the write is caught and logged inside \<open>save_giveaways\<close> and is not reported to the
  operation that called it: for create, join, cancel, set the exact end, and resolve
  (by the timer or by the command), the cog in memory after the call and everything the
  users see of it (replies, channel messages, edits, other log lines) are the same
  whether the file is written or not, so the operation acknowledges just as it does
  after a save that was written.  Only a data directory that cannot be made, which
  \<open>save_giveaways\<close> attempts before its \<open>try\<close> block, makes it raise.  Then join,
  cancel and set the exact end do not send their acknowledgement, resolve only logs the
  error and announces nothing, and create, whose reply precedes the save, creates no
  timer.
\<close>

theorem save_failure_only_logged:
  "(data_dir_ok e \<longrightarrow> save_giveaways (e\<lparr>save_ok := False\<rparr>) gs = Inr [SaveFailed])
   \<and> fst (create_giveaway (e\<lparr>save_ok := b\<rparr>) hours minutes ttl descr s)
       = fst (create_giveaway e hours minutes ttl descr s)
   \<and> visible (snd (create_giveaway (e\<lparr>save_ok := b\<rparr>) hours minutes ttl descr s))
       = visible (snd (create_giveaway e hours minutes ttl descr s))
   \<and> fst (add_participant (e\<lparr>save_ok := b\<rparr>) gid s) = fst (add_participant e gid s)
   \<and> visible (snd (add_participant (e\<lparr>save_ok := b\<rparr>) gid s))
       = visible (snd (add_participant e gid s))
   \<and> fst (cancel_giveaway (e\<lparr>save_ok := b\<rparr>) gid s) = fst (cancel_giveaway e gid s)
   \<and> visible (snd (cancel_giveaway (e\<lparr>save_ok := b\<rparr>) gid s))
       = visible (snd (cancel_giveaway e gid s))
   \<and> fst (set_exact_time (e\<lparr>save_ok := b\<rparr>) gid date time s)
       = fst (set_exact_time e gid date time s)
   \<and> visible (snd (set_exact_time (e\<lparr>save_ok := b\<rparr>) gid date time s))
       = visible (snd (set_exact_time e gid date time s))
   \<and> fst (end_giveaway (e\<lparr>save_ok := b\<rparr>) gid s) = fst (end_giveaway e gid s)
   \<and> visible (snd (end_giveaway (e\<lparr>save_ok := b\<rparr>) gid s))
       = visible (snd (end_giveaway e gid s))
   \<and> fst (end_giveaway_command (e\<lparr>save_ok := b\<rparr>) gid s) = fst (end_giveaway_command e gid s)
   \<and> visible (snd (end_giveaway_command (e\<lparr>save_ok := b\<rparr>) gid s))
       = visible (snd (end_giveaway_command e gid s))
   \<and> (\<not> data_dir_ok e \<longrightarrow>
        save_giveaways e gs = Inl OSError
        \<and> Response Joined \<notin> set (snd (add_participant e gid s))
        \<and> Response CancelDone \<notin> set (snd (cancel_giveaway e gid s))
        \<and> Response TimeChanged \<notin> set (snd (set_exact_time e gid date time s))
        \<and> (snd (end_giveaway e gid s) = [Log EndNotFound]
           \<or> snd (end_giveaway e gid s) = [Log (ErrorEnding OSError)])
        \<and> tasks (fst (create_giveaway e hours minutes ttl descr s)) = tasks s
        \<and> active_giveaways (fst (create_giveaway e hours minutes ttl descr s))
            = active_giveaways s)"
proof (cases "data_dir_ok e")
  case True
  then show ?thesis
    by (simp add: save_giveaways_save_ok create_giveaway_save_ok add_participant_save_ok
        cancel_giveaway_save_ok set_exact_time_save_ok end_giveaway_save_ok
        end_giveaway_command_save_ok)
next
  case False
  note unacknowledged = save_raises_unacknowledged [OF False]
  from False show ?thesis
    by (simp add: save_giveaways_save_ok create_giveaway_save_ok add_participant_save_ok
        cancel_giveaway_save_ok set_exact_time_save_ok end_giveaway_save_ok
        end_giveaway_command_save_ok unacknowledged)
qed

text \<open>
  The claim as stated fails: in the sample world the write of a join fails, and the user
  is still told that the join succeeded.
\<close>

theorem save_failure_not_surfaced:
  "add_participant (sample_env\<lparr>interaction_user_id := 8, save_ok := False\<rparr>) ''g'' sample_cog
     = (sample_cog\<lparr>giveaways :=
          [(''g'', sample_giveaway\<lparr>participants := Some [''7'', ''8'']\<rparr>)]\<rparr>,
        [SaveFailed, Response Joined])"
  by (simp add: add_participant_def is_allowed_guild_def allowed_guild_ids_def is_ended_def
      get_participants_def save_giveaways_def ensure_data_directory_def py_str_8 Let_def
      sample_defs)

theorem save_failure_only_logged_witness:
  "data_dir_ok (sample_env\<lparr>interaction_user_id := 8\<rparr>)
   \<and> save_giveaways (sample_env\<lparr>interaction_user_id := 8, save_ok := False\<rparr>)
       (giveaways sample_cog) = Inr [SaveFailed]
   \<and> fst (add_participant (sample_env\<lparr>interaction_user_id := 8, save_ok := False\<rparr>) ''g''
          sample_cog)
     = fst (add_participant (sample_env\<lparr>interaction_user_id := 8\<rparr>) ''g'' sample_cog)
   \<and> visible (snd (add_participant (sample_env\<lparr>interaction_user_id := 8, save_ok := False\<rparr>)
          ''g'' sample_cog))
     = [Response Joined]
   \<and> visible (snd (add_participant (sample_env\<lparr>interaction_user_id := 8\<rparr>) ''g'' sample_cog))
     = [Response Joined]
   \<and> \<not> data_dir_ok (sample_env\<lparr>interaction_user_id := 8, data_dir_ok := False\<rparr>)
   \<and> save_giveaways (sample_env\<lparr>interaction_user_id := 8, data_dir_ok := False\<rparr>)
       (giveaways sample_cog) = Inl OSError
   \<and> add_participant (sample_env\<lparr>interaction_user_id := 8, data_dir_ok := False\<rparr>) ''g''
       sample_cog
     = (sample_cog\<lparr>giveaways :=
          [(''g'', sample_giveaway\<lparr>participants := Some [''7'', ''8'']\<rparr>)]\<rparr>,
        [Raised OSError])
   \<and> Response Joined
       \<notin> set (snd (add_participant (sample_env\<lparr>interaction_user_id := 8, data_dir_ok := False\<rparr>)
                ''g'' sample_cog))
   \<and> snd (end_giveaway (sample_env\<lparr>interaction_user_id := 8, data_dir_ok := False\<rparr>) ''g''
            sample_cog)
     = [Log (ErrorEnding OSError)]"
proof -
  let ?e8 = "sample_env\<lparr>interaction_user_id := 8\<rparr>"
  let ?ed = "sample_env\<lparr>interaction_user_id := 8, data_dir_ok := False\<rparr>"
  have dir: "data_dir_ok ?e8" by (simp add: sample_defs)
  have dir': "\<not> data_dir_ok ?ed" by simp
  have v: "visible (snd (add_participant ?e8 ''g'' sample_cog)) = [Response Joined]"
    by (simp add: add_participant_def is_allowed_guild_def allowed_guild_ids_def is_ended_def
        get_participants_def save_giveaways_def ensure_data_directory_def py_str_8 Let_def
        sample_defs)
  have j: "add_participant ?ed ''g'' sample_cog
     = (sample_cog\<lparr>giveaways :=
          [(''g'', sample_giveaway\<lparr>participants := Some [''7'', ''8'']\<rparr>)]\<rparr>,
        [Raised OSError])"
    by (simp add: add_participant_def is_allowed_guild_def allowed_guild_ids_def is_ended_def
        get_participants_def save_giveaways_def ensure_data_directory_def py_str_8 Let_def
        sample_defs)
  have known: "snd (end_giveaway ?ed ''g'' sample_cog) \<noteq> [Log EndNotFound]"
    by (simp add: end_giveaway_def save_giveaways_def ensure_data_directory_def Let_def
        sample_defs)
  from save_failure_only_logged [of ?e8 "giveaways sample_cog" False 0 0 "[]" "[]" sample_cog
      "''g''" "[]" "[]"] v dir
  have a: "save_giveaways (?e8\<lparr>save_ok := False\<rparr>) (giveaways sample_cog) = Inr [SaveFailed]
   \<and> fst (add_participant (?e8\<lparr>save_ok := False\<rparr>) ''g'' sample_cog)
     = fst (add_participant ?e8 ''g'' sample_cog)
   \<and> visible (snd (add_participant (?e8\<lparr>save_ok := False\<rparr>) ''g'' sample_cog))
     = [Response Joined]"
    by simp
  from save_failure_only_logged [of ?ed "giveaways sample_cog" False 0 0 "[]" "[]" sample_cog
      "''g''" "[]" "[]"] dir' known
  have b: "save_giveaways ?ed (giveaways sample_cog) = Inl OSError
   \<and> Response Joined \<notin> set (snd (add_participant ?ed ''g'' sample_cog))
   \<and> snd (end_giveaway ?ed ''g'' sample_cog) = [Log (ErrorEnding OSError)]"
    by blast
  from dir a v dir' b j show ?thesis by simp
qed

subsection \<open>The timer table after an ending\<close>

text \<open>
  Claim C8 does not hold of the code.  In the sample world with a channel that the bot
  cannot find, the timer of the giveaway fires: \<open>end_giveaway\<close> marks the giveaway
  ended, saves, logs that the channel is missing and returns before its clean-up, so the
  handle of the finished timer stays in the timer table.  The same early return leaves
  the handle behind after \<open>end_giveaway_command\<close>, which only cancels the timer.
\<close>

theorem stale_timer_handle:
  "run_task (sample_env\<lparr>get_channel := (\<lambda>_. False)\<rparr>) 0 sample_cog
     = (sample_cog
          \<lparr>giveaways := [(''g'', sample_giveaway\<lparr>ended := Some True\<rparr>)],
           tasks := [\<lparr>task_giveaway = ''g'', task_delay = Some 60, status = Finished\<rparr>]\<rparr>,
        [Saved [(''g'', sample_giveaway\<lparr>ended := Some True\<rparr>)], Log ChannelNotFound])
   \<and> map_of (active_giveaways
        (fst (run_task (sample_env\<lparr>get_channel := (\<lambda>_. False)\<rparr>) 0 sample_cog))) ''g''
     = Some 0
   \<and> map_of (active_giveaways
        (fst (end_giveaway_command (sample_env\<lparr>get_channel := (\<lambda>_. False)\<rparr>) ''g''
           sample_cog))) ''g''
     = Some 0
   \<and> map_of (giveaways
        (fst (end_giveaway_command (sample_env\<lparr>get_channel := (\<lambda>_. False)\<rparr>) ''g''
           sample_cog))) ''g''
     = Some (sample_giveaway\<lparr>ended := Some True\<rparr>)"
  by (simp add: run_task_def end_giveaway_command_def cancel_scheduled_def cancel_task_def
      end_defs sample_defs py_int_10 py_int_20)

end
